theory Spec2Isabelle
  imports Complex_Main "HOL-Library.AList"
begin

section \<open>Host values\<close>

text \<open>
  The evaluator works on values of its host runtime. A number is an IEEE double: NaN, the
  two infinities, or a finite double, which is a rational. Arithmetic on numbers is the
  host's and is never computed here (see \<open>host\<close> below). An object is the list of its own
  data properties, each key once, in insertion order; its prototype is the host's
  \<open>Object.prototype\<close>. \<open>VHostFun\<close> is a function of the host runtime and \<open>VHostObj\<close>
  another object of it, each named by its path; \<open>VHostObj ''Object.prototype''\<close> is the
  prototype of the objects.
\<close>

datatype jsnum = Fin rat | NaN | PosInf | NegInf

datatype val =
    VUndefined
  | VNull
  | VBool bool
  | VNum jsnum
  | VStr string
  | VArr "val list"
  | VObj "(string \<times> val) list"
  | VHostFun string
  | VHostObj string

text \<open>A thrown \<open>Error\<close>, with its message.\<close>

datatype error = Error string

fun typeof :: "val \<Rightarrow> string" where
  "typeof VUndefined = ''undefined''"
| "typeof VNull = ''object''"
| "typeof (VBool b) = ''boolean''"
| "typeof (VNum n) = ''number''"
| "typeof (VStr s) = ''string''"
| "typeof (VArr xs) = ''object''"
| "typeof (VObj kvs) = ''object''"
| "typeof (VHostFun f) = ''function''"
| "typeof (VHostObj f) = ''object''"

text \<open>Truthiness, as \<open>!value\<close>, \<open>Boolean(value)\<close> and the conditional operators read it.\<close>

fun truthy :: "val \<Rightarrow> bool" where
  "truthy VUndefined = False"
| "truthy VNull = False"
| "truthy (VBool b) = b"
| "truthy (VNum (Fin q)) = (q \<noteq> 0)"
| "truthy (VNum NaN) = False"
| "truthy (VNum PosInf) = True"
| "truthy (VNum NegInf) = True"
| "truthy (VStr s) = (s \<noteq> [])"
| "truthy (VArr xs) = True"
| "truthy (VObj kvs) = True"
| "truthy (VHostFun f) = True"
| "truthy (VHostObj f) = True"

fun isArray :: "val \<Rightarrow> bool" where
  "isArray (VArr xs) = True"
| "isArray v = False"

text \<open>\<open>value == null\<close>: null or undefined.\<close>

fun nullish :: "val \<Rightarrow> bool" where
  "nullish VUndefined = True"
| "nullish VNull = True"
| "nullish v = False"

text \<open>
  A property key that is an array index: the decimal digits of a number, without a
  leading zero.
\<close>

definition code_unit :: "char \<Rightarrow> nat" where
  "code_unit c = of_char c"

definition is_digit :: "char \<Rightarrow> bool" where
  "is_digit c = (48 \<le> code_unit c \<and> code_unit c \<le> 57)"

definition array_index :: "string \<Rightarrow> nat option" where
  "array_index k =
     (if k \<noteq> [] \<and> list_all is_digit k \<and> (k = ''0'' \<or> hd k \<noteq> CHR ''0'')
      then Some (foldl (\<lambda>a c. 10 * a + (code_unit c - 48)) 0 k)
      else None)"

text \<open>
  The own property \<open>k\<close> of a value: of an object, a data property; of an array, an
  element or the length; of a string, a code unit or the length.
\<close>

fun own_get :: "val \<Rightarrow> string \<Rightarrow> val option" where
  "own_get (VObj kvs) k = map_of kvs k"
| "own_get (VArr xs) k =
     (case array_index k of
        Some i \<Rightarrow> (if i < length xs then Some (xs ! i) else None)
      | None \<Rightarrow> (if k = ''length'' then Some (VNum (Fin (of_nat (length xs)))) else None))"
| "own_get (VStr s) k =
     (case array_index k of
        Some i \<Rightarrow> (if i < length s then Some (VStr [s ! i]) else None)
      | None \<Rightarrow> (if k = ''length'' then Some (VNum (Fin (of_nat (length s)))) else None))"
| "own_get v k = None"

section \<open>Nodes\<close>

text \<open>
  The tree the parser library hands over, with the fields the program reads; the
  arguments of a constructor stand in the order in which a \<open>for (key in node)\<close> loop
  meets them. A \<open>Literal\<close> carries its \<open>value\<close>. \<open>Other t cs\<close> is a node of any other
  type \<open>t\<close> with its child nodes \<open>cs\<close>. A node does not carry its position, which
  the program reads nowhere but in the JSON text of the node.
  \<^item> \<open>MemberExpression object property computed\<close>
  \<^item> \<open>CallExpression callee arguments\<close>
  \<^item> \<open>BinaryExpression operator left right\<close>, \<open>LogicalExpression operator left right\<close>
  \<^item> \<open>ConditionalExpression test consequent alternate\<close>
  \<^item> \<open>UnaryExpression operator argument\<close>
  \<^item> \<open>ArrayExpression elements\<close>, a hole being \<open>None\<close>
  \<^item> \<open>ObjectExpression properties\<close>, \<open>Property key value computed\<close>
  \<^item> \<open>ArrowFunctionExpression params body\<close>
  \<^item> \<open>TemplateLiteral expressions quasis\<close>
\<close>

datatype node =
    Literal val
  | Identifier string
  | MemberExpression node node bool
  | CallExpression node "node list"
  | BinaryExpression string node node
  | LogicalExpression string node node
  | ConditionalExpression node node node
  | UnaryExpression string node
  | ArrayExpression "node option list"
  | ObjectExpression "node list"
  | Property node node bool
  | ArrowFunctionExpression "node list" node
  | TemplateLiteral "node list" "node list"
  | TemplateElement
  | Other string "node list"

fun node_type :: "node \<Rightarrow> string" where
  "node_type (Literal v) = ''Literal''"
| "node_type (Identifier n) = ''Identifier''"
| "node_type (MemberExpression ob p c) = ''MemberExpression''"
| "node_type (CallExpression f as) = ''CallExpression''"
| "node_type (BinaryExpression op l r) = ''BinaryExpression''"
| "node_type (LogicalExpression op l r) = ''LogicalExpression''"
| "node_type (ConditionalExpression t c a) = ''ConditionalExpression''"
| "node_type (UnaryExpression op a) = ''UnaryExpression''"
| "node_type (ArrayExpression es) = ''ArrayExpression''"
| "node_type (ObjectExpression ps) = ''ObjectExpression''"
| "node_type (Property k v c) = ''Property''"
| "node_type (ArrowFunctionExpression ps b) = ''ArrowFunctionExpression''"
| "node_type (TemplateLiteral es qs) = ''TemplateLiteral''"
| "node_type TemplateElement = ''TemplateElement''"
| "node_type (Other t cs) = t"

section \<open>The host\<close>

text \<open>
  What the program asks of its host and does not define itself:
  \<^item> \<open>h_String v\<close> is \<open>String(v)\<close>, which calls into the value and may throw;
  \<^item> \<open>h_num_to_string n\<close> is \<open>String(n)\<close> on a number, which never throws;
  \<^item> \<open>h_JSON_stringify v\<close> is \<open>JSON.stringify(v)\<close>: a string, or undefined, or a throw
    (a cycle);
  \<^item> \<open>h_proto v k\<close> is the property \<open>k\<close> as the host finds it on \<open>v\<close> beyond the own data
    properties of \<open>v\<close>: along the prototype chain, or on the wrapper of a primitive
    (\<open>None\<close>: not found);
  \<^item> \<open>h_binary op l r\<close> and \<open>h_unary op v\<close> are the host's operators;
  \<^item> \<open>h_node_json n\<close> is \<open>JSON.stringify(n)\<close> on a node of the parser library, whose
    layout is the library's; the text holds the position of the node, and is that of \<open>n\<close>
    as the root of the text the program had parsed;
  \<^item> \<open>h_parse text\<close> is the parser library on \<open>text\<close>, followed by
    \<open>extractExpression\<close>: the expression of the one expression statement of the
    program, \<open>None\<close> when the library throws or the program has another shape.
  Every general theorem below holds for any host.
\<close>

record host =
  h_String :: "val \<Rightarrow> error + string"
  h_num_to_string :: "jsnum \<Rightarrow> string"
  h_JSON_stringify :: "val \<Rightarrow> error + val"
  h_proto :: "val \<Rightarrow> string \<Rightarrow> val option"
  h_binary :: "string \<Rightarrow> val \<Rightarrow> val \<Rightarrow> error + val"
  h_unary :: "string \<Rightarrow> val \<Rightarrow> error + val"
  h_node_json :: "node \<Rightarrow> string"
  h_parse :: "string \<Rightarrow> node option"

text \<open>\<open>k in v\<close> on an object \<open>v\<close>: an own property, or one the prototype chain has.\<close>

definition has_in :: "host \<Rightarrow> val \<Rightarrow> string \<Rightarrow> bool" where
  "has_in h v k = (own_get v k \<noteq> None \<or> h_proto h v k \<noteq> None)"

text \<open>\<open>v[k]\<close> on a value \<open>v\<close> that is not nullish, with a string key.\<close>

definition get_property :: "host \<Rightarrow> val \<Rightarrow> string \<Rightarrow> val" where
  "get_property h v k =
     (case own_get v k of
        Some x \<Rightarrow> x
      | None \<Rightarrow> (case h_proto h v k of Some x \<Rightarrow> x | None \<Rightarrow> VUndefined))"

text \<open>
  \<open>String(v)\<close>: fixed on the primitives, the host's on a number, and a call into the
  value otherwise. It is also the key \<open>v\<close> stands for in \<open>object[v]\<close>.
\<close>

definition js_String :: "host \<Rightarrow> val \<Rightarrow> error + string" where
  "js_String h v =
     (case v of
        VUndefined \<Rightarrow> Inr ''undefined''
      | VNull \<Rightarrow> Inr ''null''
      | VBool b \<Rightarrow> Inr (if b then ''true'' else ''false'')
      | VNum n \<Rightarrow> Inr (h_num_to_string h n)
      | VStr s \<Rightarrow> Inr s
      | _ \<Rightarrow> h_String h v)"

section \<open>The host on plain data\<close>

text \<open>
  A concrete host for evaluating the program on concrete inputs. It is the host runtime
  restricted to plain data: undefined, null, booleans, numbers, strings, arrays and
  objects whose properties are plain data again. \<open>Object.prototype\<close> has the members
  every host gives it.

  A finite number of the host is a double; \<open>Fin q\<close> stands for the double of value \<open>q\<close>,
  the two zeros being one. The plain host prints and adds the numbers on which this is
  exact: the integers up to \<open>2^53 - 1\<close> in absolute value, and for printing also their
  halves, which the complexity of an expression can be. Where the plain host does not
  reach, it prints or throws \<open>outside the plain host\<close>; no result below hangs on that.
\<close>

text \<open>The decimal digit of a number below ten.\<close>

definition digit_char :: "nat \<Rightarrow> char" where
  "digit_char n = ''0123456789'' ! n"

function show_nat :: "nat \<Rightarrow> string" where
  "show_nat n = (if n < 10 then [digit_char n] else show_nat (n div 10) @ [digit_char (n mod 10)])"
  by pat_completeness auto
termination
  by (relation "measure (\<lambda>n. n)") auto

declare show_nat.simps [simp del]

definition show_int :: "int \<Rightarrow> string" where
  "show_int i = (if i < 0 then CHR ''-'' # show_nat (nat (- i)) else show_nat (nat i))"

definition safe_integer :: "rat \<Rightarrow> bool" where
  "safe_integer q = (of_int \<lfloor>q\<rfloor> = q \<and> \<bar>q\<bar> \<le> 9007199254740991)"

text \<open>\<open>String(n)\<close>: an integer is printed by its digits, and \<open>n + 1/2\<close> by those of \<open>n\<close>
  and \<open>.5\<close>.\<close>

fun plain_num_to_string :: "jsnum \<Rightarrow> string" where
  "plain_num_to_string NaN = ''NaN''"
| "plain_num_to_string PosInf = ''Infinity''"
| "plain_num_to_string NegInf = ''-Infinity''"
| "plain_num_to_string (Fin q) =
     (if safe_integer q then show_int \<lfloor>q\<rfloor>
      else if safe_integer (2 * q)
      then (if q < 0 then ''-'' else []) @ show_int \<lfloor>\<bar>q\<bar>\<rfloor> @ ''.5''
      else ''outside the plain host'')"

fun join_with :: "string \<Rightarrow> string list \<Rightarrow> string" where
  "join_with sep [] = []"
| "join_with sep [x] = x"
| "join_with sep (x # y # ys) = x @ sep @ join_with sep (y # ys)"

fun plain_String :: "val \<Rightarrow> string" where
  "plain_String VUndefined = ''undefined''"
| "plain_String VNull = ''null''"
| "plain_String (VBool b) = (if b then ''true'' else ''false'')"
| "plain_String (VNum n) = plain_num_to_string n"
| "plain_String (VStr s) = s"
| "plain_String (VArr xs) =
     join_with '','' (map (\<lambda>x. if nullish x then [] else plain_String x) xs)"
| "plain_String (VObj kvs) = ''[object Object]''"
| "plain_String (VHostFun f) = ''function '' @ f @ ''() { [native code] }''"
| "plain_String (VHostObj f) = ''[object Object]''"

definition object_prototype :: "(string \<times> val) list" where
  "object_prototype =
     [(''constructor'', VHostFun ''Object''),
      (''__defineGetter__'', VHostFun ''__defineGetter__''),
      (''__defineSetter__'', VHostFun ''__defineSetter__''),
      (''hasOwnProperty'', VHostFun ''hasOwnProperty''),
      (''__lookupGetter__'', VHostFun ''__lookupGetter__''),
      (''__lookupSetter__'', VHostFun ''__lookupSetter__''),
      (''isPrototypeOf'', VHostFun ''isPrototypeOf''),
      (''propertyIsEnumerable'', VHostFun ''propertyIsEnumerable''),
      (''toString'', VHostFun ''toString''),
      (''valueOf'', VHostFun ''valueOf''),
      (''__proto__'', VHostObj ''Object.prototype''),
      (''toLocaleString'', VHostFun ''toLocaleString'')]"

text \<open>
  The prototype chain of plain data ends in \<open>Object.prototype\<close>; the members of the
  other prototypes (of arrays, strings, numbers, functions) are left out, so the plain
  host is used below only on objects and on keys where they play no part. The
  \<open>__proto__\<close> of \<open>Object.prototype\<close> itself is null.
\<close>

fun plain_proto :: "val \<Rightarrow> string \<Rightarrow> val option" where
  "plain_proto VUndefined k = None"
| "plain_proto VNull k = None"
| "plain_proto (VHostObj f) k =
     (if f = ''Object.prototype'' \<and> k = ''__proto__'' then Some VNull else map_of object_prototype k)"
| "plain_proto v k = map_of object_prototype k"

text \<open>
  The operators of the plain host: \<open>+\<close>, \<open>-\<close> and \<open>*\<close> on primitive values. \<open>+\<close> joins
  the strings of its operands when one of them is a string; otherwise the operands are
  taken as numbers: undefined is NaN, null is 0, false and true are 0 and 1. The sum and
  the product of two numbers are those of the host where they are exact.
\<close>

fun to_number :: "val \<Rightarrow> jsnum option" where
  "to_number VUndefined = Some NaN"
| "to_number VNull = Some (Fin 0)"
| "to_number (VBool b) = Some (Fin (if b then 1 else 0))"
| "to_number (VNum n) = Some n"
| "to_number v = None"

fun num_neg :: "jsnum \<Rightarrow> jsnum" where
  "num_neg (Fin q) = Fin (- q)"
| "num_neg NaN = NaN"
| "num_neg PosInf = NegInf"
| "num_neg NegInf = PosInf"

fun num_add :: "jsnum \<Rightarrow> jsnum \<Rightarrow> jsnum option" where
  "num_add (Fin a) (Fin b) =
     (if safe_integer a \<and> safe_integer b \<and> safe_integer (a + b) then Some (Fin (a + b)) else None)"
| "num_add NaN b = Some NaN"
| "num_add a NaN = Some NaN"
| "num_add PosInf NegInf = Some NaN"
| "num_add NegInf PosInf = Some NaN"
| "num_add PosInf b = Some PosInf"
| "num_add NegInf b = Some NegInf"
| "num_add a PosInf = Some PosInf"
| "num_add a NegInf = Some NegInf"

definition num_sign :: "jsnum \<Rightarrow> int" where
  "num_sign n = (case n of Fin q \<Rightarrow> sgn \<lfloor>q\<rfloor> | PosInf \<Rightarrow> 1 | NegInf \<Rightarrow> - 1 | NaN \<Rightarrow> 0)"

fun num_mul :: "jsnum \<Rightarrow> jsnum \<Rightarrow> jsnum option" where
  "num_mul (Fin a) (Fin b) =
     (if safe_integer a \<and> safe_integer b \<and> safe_integer (a * b) then Some (Fin (a * b)) else None)"
| "num_mul NaN b = Some NaN"
| "num_mul a NaN = Some NaN"
| "num_mul a b =
     (if (case a of Fin q \<Rightarrow> \<not> safe_integer q | _ \<Rightarrow> False)
         \<or> (case b of Fin q \<Rightarrow> \<not> safe_integer q | _ \<Rightarrow> False) then None
      else if num_sign a * num_sign b = 0 then Some NaN
      else if num_sign a * num_sign b > 0 then Some PosInf
      else Some NegInf)"

text \<open>The primitive values the plain host prints.\<close>

fun prints :: "val \<Rightarrow> bool" where
  "prints VUndefined = True"
| "prints VNull = True"
| "prints (VBool b) = True"
| "prints (VNum (Fin q)) = (safe_integer q \<or> safe_integer (2 * q))"
| "prints (VNum n) = True"
| "prints (VStr t) = True"
| "prints v = False"

definition plain_arith :: "(jsnum \<Rightarrow> jsnum \<Rightarrow> jsnum option) \<Rightarrow> val \<Rightarrow> val \<Rightarrow> error + val" where
  "plain_arith f l r =
     (case (to_number l, to_number r) of
        (Some a, Some b) \<Rightarrow>
          (case f a b of
             Some n \<Rightarrow> Inr (VNum n)
           | None \<Rightarrow> Inl (Error ''outside the plain host''))
      | _ \<Rightarrow> Inl (Error ''outside the plain host''))"

definition plain_binary :: "string \<Rightarrow> val \<Rightarrow> val \<Rightarrow> error + val" where
  "plain_binary op l r =
     (if op = ''+''
      then (if prints l \<and> prints r \<and> (typeof l = ''string'' \<or> typeof r = ''string'')
            then Inr (VStr (plain_String l @ plain_String r))
            else plain_arith num_add l r)
      else if op = ''-'' then plain_arith (\<lambda>a b. num_add a (num_neg b)) l r
      else if op = ''*'' then plain_arith num_mul l r
      else Inl (Error ''outside the plain host''))"

definition plain_unary :: "string \<Rightarrow> val \<Rightarrow> error + val" where
  "plain_unary op v =
     (case to_number v of
        Some n \<Rightarrow>
          (if op = ''-'' then Inr (VNum (num_neg n))
           else if op = ''+'' then Inr (VNum n)
           else Inl (Error ''outside the plain host''))
      | None \<Rightarrow> Inl (Error ''outside the plain host''))"

text \<open>
  \<open>JSON.stringify\<close> on plain data; \<open>None\<close> is the answer undefined. A string is
  quoted, with its quotes, backslashes and control characters escaped; an undefined
  element of an array is printed as null and an undefined property is left out.
\<close>

definition hex_digit :: "nat \<Rightarrow> char" where
  "hex_digit n = ''0123456789abcdef'' ! n"

definition json_escape :: "char \<Rightarrow> string" where
  "json_escape c =
     (if c = CHR 0x22 then [CHR 0x5C, CHR 0x22]
      else if c = CHR 0x5C then [CHR 0x5C, CHR 0x5C]
      else if code_unit c = 8 then [CHR 0x5C, CHR ''b'']
      else if code_unit c = 9 then [CHR 0x5C, CHR ''t'']
      else if code_unit c = 10 then [CHR 0x5C, CHR ''n'']
      else if code_unit c = 12 then [CHR 0x5C, CHR ''f'']
      else if code_unit c = 13 then [CHR 0x5C, CHR ''r'']
      else if code_unit c < 32
      then [CHR 0x5C, CHR ''u'', CHR ''0'', CHR ''0'', hex_digit (code_unit c div 16), hex_digit (code_unit c mod 16)]
      else [c])"

definition json_quote :: "string \<Rightarrow> string" where
  "json_quote s = [CHR 0x22] @ concat (map json_escape s) @ [CHR 0x22]"

fun plain_json :: "val \<Rightarrow> string option" where
  "plain_json VUndefined = None"
| "plain_json VNull = Some ''null''"
| "plain_json (VBool b) = Some (if b then ''true'' else ''false'')"
| "plain_json (VNum (Fin q)) = Some (plain_num_to_string (Fin q))"
| "plain_json (VNum NaN) = Some ''null''"
| "plain_json (VNum PosInf) = Some ''null''"
| "plain_json (VNum NegInf) = Some ''null''"
| "plain_json (VStr s) = Some (json_quote s)"
| "plain_json (VArr xs) =
     Some (''['' @ join_with '','' (map (\<lambda>x. case plain_json x of None \<Rightarrow> ''null'' | Some t \<Rightarrow> t) xs) @ '']'')"
| "plain_json (VObj kvs) =
     Some (''{'' @ join_with '',''
             (concat (map (\<lambda>kv. case plain_json (snd kv) of
                                  None \<Rightarrow> []
                                | Some t \<Rightarrow> [json_quote (fst kv) @ '':'' @ t]) kvs)) @ ''}'')"
| "plain_json (VHostFun f) = None"
| "plain_json (VHostObj f) = Some ''{}''"

definition plain_JSON_stringify :: "val \<Rightarrow> error + val" where
  "plain_JSON_stringify v = Inr (case plain_json v of None \<Rightarrow> VUndefined | Some t \<Rightarrow> VStr t)"

text \<open>
  \<open>JSON.stringify\<close> on a node. With the options of \<open>ASTParser\<close> (\<open>locations: true\<close>) the
  parser library gives a node its \<open>type\<close>, \<open>start\<close>, \<open>end\<close> and \<open>loc\<close> first and its own
  fields after them; an offset counts from the start of the text and a column from the
  start of its line, so that on a text of one line the two agree.
\<close>

definition node_header :: "string \<Rightarrow> nat \<Rightarrow> nat \<Rightarrow> string" where
  "node_header t s e =
     ''{\"type\":'' @ json_quote t @ '',\"start\":'' @ show_nat s @ '',\"end\":'' @ show_nat e
     @ '',\"loc\":{\"start\":{\"line\":1,\"column\":'' @ show_nat s
     @ ''},\"end\":{\"line\":1,\"column\":'' @ show_nat e @ ''}}''"

text \<open>
  The plain host prints the nodes its parser (below) builds: a name, one of the
  literals \<open>true\<close>, \<open>false\<close> and \<open>null\<close>, \<open>this\<close>, and the member expressions
  \<open>object.name\<close> on them, each written without a blank. The text of such a node is
  fixed by the node, and \<open>plain_node_json_at s n\<close> is the JSON text of the node \<open>n\<close>
  whose text starts at offset \<open>s\<close>. A node of another form has no text here and is
  printed by its type alone; no result below hangs on that.
\<close>

fun text_length :: "node \<Rightarrow> nat" where
  "text_length (Identifier name) = length name"
| "text_length (Literal v) = length (plain_String v)"
| "text_length (MemberExpression ob p c) = text_length ob + 1 + text_length p"
| "text_length (Other t cs) = (if t = ''ThisExpression'' then 4 else 0)"
| "text_length n = 0"

fun plain_node_json_at :: "nat \<Rightarrow> node \<Rightarrow> string" where
  "plain_node_json_at s (Identifier name) =
     node_header ''Identifier'' s (s + length name) @ '',\"name\":'' @ json_quote name @ ''}''"
| "plain_node_json_at s (Literal v) =
     (if v = VBool True \<or> v = VBool False \<or> v = VNull
      then node_header ''Literal'' s (s + length (plain_String v))
           @ '',\"value\":'' @ plain_String v @ '',\"raw\":'' @ json_quote (plain_String v) @ ''}''
      else ''{\"type\":\"Literal\"}'')"
| "plain_node_json_at s (MemberExpression ob p c) =
     (case (p, c) of
        (Identifier name, False) \<Rightarrow>
          node_header ''MemberExpression'' s (s + (text_length ob + 1 + length name))
          @ '',\"object\":'' @ plain_node_json_at s ob
          @ '',\"property\":'' @ plain_node_json_at (s + (text_length ob + 1)) p
          @ '',\"computed\":false,\"optional\":false}''
      | _ \<Rightarrow> ''{\"type\":\"MemberExpression\"}'')"
| "plain_node_json_at s (Other t cs) =
     (if t = ''ThisExpression'' \<and> cs = [] then node_header t s (s + 4) @ ''}''
      else ''{\"type\":'' @ json_quote t @ ''}'')"
| "plain_node_json_at s n = ''{\"type\":'' @ json_quote (node_type n) @ ''}''"

text \<open>The program hands the parser its expression behind one parenthesis, so that the
  text of the root starts at offset 1.\<close>

definition plain_node_json :: "node \<Rightarrow> string" where
  "plain_node_json n = plain_node_json_at 1 n"

text \<open>
  The parser library on a small fragment. \<open>true\<close>, \<open>false\<close> and \<open>null\<close> are literals
  and \<open>this\<close> is a node of its own. Any other name of letters, digits, \<open>_\<close> and \<open>$\<close>
  that does not start with a digit is an \<open>Identifier\<close>, unless it is a reserved word,
  which the library refuses as an expression. Names joined by dots are the member
  expressions on the first of them; a reserved word is a name there but in the first
  place. Every other text is outside the plain host, which is not used on it.
\<close>

definition is_letter :: "char \<Rightarrow> bool" where
  "is_letter c = ((97 \<le> code_unit c \<and> code_unit c \<le> 122) \<or> (65 \<le> code_unit c \<and> code_unit c \<le> 90))"

definition reserved_words :: "string list" where
  "reserved_words =
     [''break'', ''case'', ''catch'', ''class'', ''const'', ''continue'', ''debugger'',
      ''default'', ''delete'', ''do'', ''else'', ''enum'', ''export'', ''extends'',
      ''finally'', ''for'', ''function'', ''if'', ''import'', ''in'', ''instanceof'',
      ''new'', ''return'', ''super'', ''switch'', ''this'', ''throw'', ''try'', ''typeof'',
      ''var'', ''void'', ''while'', ''with'']"

definition is_name :: "string \<Rightarrow> bool" where
  "is_name text =
     (text \<noteq> [] \<and> \<not> is_digit (hd text)
      \<and> list_all (\<lambda>c. is_letter c \<or> is_digit c \<or> c = CHR ''_'' \<or> c = CHR ''$'') text)"

definition plain_parse_name :: "string \<Rightarrow> node option" where
  "plain_parse_name text =
     (if text = ''true'' then Some (Literal (VBool True))
      else if text = ''false'' then Some (Literal (VBool False))
      else if text = ''null'' then Some (Literal VNull)
      else if text = ''this'' then Some (Other ''ThisExpression'' [])
      else if is_name text \<and> \<not> List.member reserved_words text then Some (Identifier text)
      else None)"

text \<open>The parts of a text between its dots.\<close>

fun split_dots :: "string \<Rightarrow> string \<Rightarrow> string list" where
  "split_dots part [] = [rev part]"
| "split_dots part (c # cs) =
     (if c = CHR ''.'' then rev part # split_dots [] cs else split_dots (c # part) cs)"

fun member_chain :: "node \<Rightarrow> string list \<Rightarrow> node option" where
  "member_chain ob [] = Some ob"
| "member_chain ob (p # ps) =
     (if is_name p then member_chain (MemberExpression ob (Identifier p) False) ps else None)"

definition plain_parse_dotted :: "string \<Rightarrow> node option" where
  "plain_parse_dotted text =
     (case split_dots [] text of
        [] \<Rightarrow> None
      | first # rest \<Rightarrow>
          (case plain_parse_name first of
             None \<Rightarrow> None
           | Some ob \<Rightarrow> member_chain ob rest))"

text \<open>The program hands the parser its expression in parentheses.\<close>

definition plain_parse :: "string \<Rightarrow> node option" where
  "plain_parse text =
     (if length text \<ge> 2 \<and> hd text = CHR ''('' \<and> last text = CHR '')''
      then plain_parse_dotted (butlast (tl text))
      else None)"

definition plain_host :: host where
  "plain_host =
     \<lparr> h_String = (\<lambda>v. Inr (plain_String v)),
       h_num_to_string = plain_num_to_string,
       h_JSON_stringify = plain_JSON_stringify,
       h_proto = plain_proto,
       h_binary = plain_binary,
       h_unary = plain_unary,
       h_node_json = plain_node_json,
       h_parse = plain_parse \<rparr>"

section \<open>Type registry\<close>

text \<open>
  \<open>DefaultTypeRegistry\<close> of \<open>core/type-registry.ts\<close>. The registry is its array
  \<open>types\<close>; \<open>register\<close> returns the new array, or the error it throws. A config
  always has its schema and its strategy here, so that of the two checks of \<open>register\<close>
  the one on the name remains. The kind of a property is kept as the string it is, for
  the \<open>default\<close> case of \<open>validatePropertyType\<close>.
\<close>

datatype SerializationStrategy = Json | AsString | AsObject

record TypeSchema =
  schema_properties :: "(string \<times> string) list"
  schema_required :: "string list"

record TypeConfig =
  cfg_schema :: TypeSchema
  cfg_serialization :: SerializationStrategy

record RegisteredType =
  rt_name :: string
  rt_config :: TypeConfig


definition hasRequiredProperties :: "host \<Rightarrow> val \<Rightarrow> string list \<Rightarrow> bool" where
  "hasRequiredProperties h v required = list_all (\<lambda>prop. has_in h v prop) required"

definition validatePropertyType :: "val \<Rightarrow> string \<Rightarrow> bool" where
  "validatePropertyType v expectedType =
     (if nullish v then True
      else if expectedType = ''string'' then typeof v = ''string''
      else if expectedType = ''number'' then typeof v = ''number'' \<and> v \<noteq> VNum NaN
      else if expectedType = ''boolean'' then typeof v = ''boolean''
      else if expectedType = ''object'' then typeof v = ''object'' \<and> \<not> isArray v
      else if expectedType = ''array'' then isArray v
      else True)"

definition validateProperties :: "host \<Rightarrow> val \<Rightarrow> TypeSchema \<Rightarrow> bool" where
  "validateProperties h v schema =
     list_all (\<lambda>(propName, propType).
        if has_in h v propName then validatePropertyType (get_property h v propName) propType
        else True) (schema_properties schema)"

definition matchesType :: "host \<Rightarrow> val \<Rightarrow> TypeConfig \<Rightarrow> bool" where
  "matchesType h v config =
     (if \<not> hasRequiredProperties h v (schema_required (cfg_schema config)) then False
      else validateProperties h v (cfg_schema config))"

definition detectType :: "host \<Rightarrow> RegisteredType list \<Rightarrow> val \<Rightarrow> string option" where
  "detectType h types v =
     (if \<not> truthy v \<or> typeof v \<noteq> ''object'' \<or> isArray v then None
      else map_option rt_name (find (\<lambda>t. matchesType h v (rt_config t)) types))"

text \<open>
  \<open>serialize\<close>: the \<open>switch\<close> has the cases \<open>'json'\<close> and \<open>'string'\<close> and a
  \<open>default\<close>, which the strategy \<open>'object'\<close> takes. The \<open>catch\<close> calls
  \<open>String(value)\<close> once more, outside any \<open>try\<close>.
\<close>

definition serialize :: "host \<Rightarrow> RegisteredType list \<Rightarrow> val \<Rightarrow> string \<Rightarrow> error + val" where
  "serialize h types v typeName =
     (case find (\<lambda>t. rt_name t = typeName) types of
        None \<Rightarrow> Inl (Error (''Unknown type: '' @ typeName))
      | Some registeredType \<Rightarrow>
          (case (case cfg_serialization (rt_config registeredType) of
                   Json \<Rightarrow> h_JSON_stringify h v
                 | AsString \<Rightarrow> map_sum id VStr (js_String h v)
                 | AsObject \<Rightarrow> map_sum id VStr (js_String h v)) of
             Inr r \<Rightarrow> Inr r
           | Inl e \<Rightarrow> map_sum id VStr (js_String h v)))"

definition hasType :: "RegisteredType list \<Rightarrow> string \<Rightarrow> bool" where
  "hasType types name = list_ex (\<lambda>t. rt_name t = name) types"


section \<open>Strings and patterns\<close>

text \<open>
  A string is the list of its code units; the code units below 256 are represented.
  \<open>is_space\<close> is the class \<open>\s\<close> of the host's regular expressions on them, which is
  also what \<open>trim\<close> removes; \<open>is_word\<close> is the class \<open>\w\<close>.
\<close>

definition is_space :: "char \<Rightarrow> bool" where
  "is_space c = List.member [9, 10, 11, 12, 13, 32, 160] (code_unit c)"

definition is_word :: "char \<Rightarrow> bool" where
  "is_word c = (is_letter c \<or> is_digit c \<or> c = CHR ''_'')"

definition trim :: "string \<Rightarrow> string" where
  "trim s = rev (dropWhile is_space (rev (dropWhile is_space s)))"

text \<open>Comparison of code units under the flag \<open>i\<close>: the letters A to Z fold.\<close>

definition fold_case :: "char \<Rightarrow> char" where
  "fold_case c = (if 65 \<le> code_unit c \<and> code_unit c \<le> 90 then char_of (code_unit c + 32) else c)"

fun starts_with_ci :: "string \<Rightarrow> string \<Rightarrow> bool" where
  "starts_with_ci [] s = True"
| "starts_with_ci (p # ps) [] = False"
| "starts_with_ci (p # ps) (c # cs) = (fold_case p = fold_case c \<and> starts_with_ci ps cs)"

text \<open>
  The regular expressions of \<open>dangerousPatterns\<close> are sequences of three kinds of
  pieces: literal text, \<open>\w+\<close> and \<open>\s*\<close>. \<open>match_here\<close> matches a sequence at the
  start of a string, trying every length of a repetition; \<open>regex_test\<close> is
  \<open>pattern.test(s)\<close>, a match at some position.
\<close>

datatype rx = Chars string | WordPlus | SpaceStar

fun match_here :: "rx list \<Rightarrow> string \<Rightarrow> bool" where
  "match_here [] s = True"
| "match_here (Chars p # r) s = (starts_with_ci p s \<and> match_here r (drop (length p) s))"
| "match_here (WordPlus # r) [] = False"
| "match_here (WordPlus # r) (c # cs) =
     (is_word c \<and> (match_here (WordPlus # r) cs \<or> match_here r cs))"
| "match_here (SpaceStar # r) [] = match_here r []"
| "match_here (SpaceStar # r) (c # cs) =
     ((is_space c \<and> match_here (SpaceStar # r) cs) \<or> match_here r (c # cs))"

fun regex_test :: "rx list \<Rightarrow> string \<Rightarrow> bool" where
  "regex_test p [] = match_here p []"
| "regex_test p (c # cs) = (match_here p (c # cs) \<or> regex_test p cs)"

definition backslash :: string where
  "backslash = [char_of (92::nat)]"

section \<open>Security validator\<close>

text \<open>
  \<open>SecurityValidator\<close>. A violation keeps its type, message and severity; the node,
  the position and the suggestion it also carries decide nothing and are left out, as are
  \<open>rulesChecked\<close> and \<open>validationTime\<close> of the result.
\<close>

datatype Severity = SevError | SevWarning

datatype ViolationType =
  blocked_identifier | blocked_property | invalid_node_type | blocked_pattern
  | complexity_limit | depth_limit

record SecurityViolation =
  v_type :: ViolationType
  v_message :: string
  v_severity :: "Severity option"

datatype RiskLevel = RiskLow | RiskMedium | RiskHigh

record SecurityValidation =
  isValid :: bool
  violations :: "SecurityViolation list"
  riskLevel :: "RiskLevel option"

text \<open>The caller's context object: its own properties.\<close>

type_synonym ExpressionContext = "(string \<times> val) list"

text \<open>A custom rule; its \<open>check\<close> answers \<open>None\<close> when it throws.\<close>

record SecurityRule =
  rule_id :: string
  rule_severity :: Severity
  rule_check :: "node \<Rightarrow> ExpressionContext option \<Rightarrow> bool option"
  rule_message :: string

text \<open>A registered function, and the function registry: a map from names. The type
  checks of a function stand in the order of their argument indices, in which the
  executor meets them.\<close>

record SafeFunction =
  fn_name :: string
  fn_impl :: "val list \<Rightarrow> error + val"
  minArgs :: "nat option"
  maxArgs :: "nat option"
  typeChecks :: "(nat \<times> (val \<Rightarrow> bool)) list"

type_synonym FunctionRegistry = "string \<Rightarrow> SafeFunction option"

definition registry_has :: "FunctionRegistry \<Rightarrow> string \<Rightarrow> bool" where
  "registry_has reg n = (reg n \<noteq> None)"

definition blockedIdentifiers :: "string list" where
  "blockedIdentifiers =
     [''eval'', ''Function'', ''constructor'', ''prototype'', ''__proto__'',
      ''window'', ''document'', ''global'', ''globalThis'', ''self'', ''parent'', ''top'', ''frames'',
      ''process'', ''require'', ''module'', ''exports'', ''__dirname'', ''__filename'',
      ''Buffer'', ''setImmediate'', ''clearImmediate'', ''setInterval'', ''clearInterval'',
      ''alert'', ''confirm'', ''prompt'', ''console'', ''fetch'', ''XMLHttpRequest'',
      ''localStorage'', ''sessionStorage'', ''indexedDB'', ''location'', ''history'', ''navigator'',
      ''setTimeout'', ''clearTimeout'',
      ''Worker'', ''SharedWorker'', ''ServiceWorker'', ''importScripts'', ''import'',
      ''WebAssembly'',
      ''WebSocket'', ''EventSource'', ''FileReader'', ''Blob'', ''URL'', ''URLSearchParams'',
      ''postMessage'', ''MessageChannel'', ''BroadcastChannel'',
      ''Error'', ''SyntaxError'', ''ReferenceError'', ''TypeError'']"

definition blockedProperties :: "string list" where
  "blockedProperties =
     [''constructor'', ''prototype'', ''__proto__'', ''__defineGetter__'', ''__defineSetter__'',
      ''__lookupGetter__'', ''__lookupSetter__'', ''valueOf'', ''toString'',
      ''hasOwnProperty'', ''isPrototypeOf'', ''propertyIsEnumerable'',
      ''__defineProperty__'', ''__getOwnPropertyDescriptor__'', ''__getPrototypeOf__'',
      ''__setPrototypeOf__'', ''apply'', ''call'', ''bind'']"

definition supportedNodeTypes :: "string list" where
  "supportedNodeTypes =
     [''MemberExpression'', ''CallExpression'', ''Literal'', ''Identifier'',
      ''BinaryExpression'', ''ConditionalExpression'', ''ArrayExpression'',
      ''ObjectExpression'', ''Property'', ''UnaryExpression'', ''LogicalExpression'',
      ''ArrowFunctionExpression'', ''TemplateLiteral'', ''TemplateElement'']"

definition blockedOperators :: "string list" where
  "blockedOperators = [''instanceof'', ''delete'', ''new'', ''typeof'', ''void'']"

text \<open>Each pattern with its \<open>source\<close>, the text the message prints.\<close>

definition dangerousPatterns :: "(string \<times> rx list) list" where
  "dangerousPatterns =
     [(''javascript:'', [Chars ''javascript:'']),
      (''data:text'' @ backslash @ ''/html'', [Chars ''data:text/html'']),
      (''data:application'' @ backslash @ ''/javascript'', [Chars ''data:application/javascript'']),
      (''vbscript:'', [Chars ''vbscript:'']),
      (''<script'', [Chars ''<script'']),
      (''on'' @ backslash @ ''w+'' @ backslash @ ''s*='', [Chars ''on'', WordPlus, SpaceStar, Chars ''='']),
      (''eval'' @ backslash @ ''s*'' @ backslash @ ''('', [Chars ''eval'', SpaceStar, Chars ''('']),
      (''Function'' @ backslash @ ''s*'' @ backslash @ ''('', [Chars ''Function'', SpaceStar, Chars ''('']),
      (''setTimeout'' @ backslash @ ''s*'' @ backslash @ ''('', [Chars ''setTimeout'', SpaceStar, Chars ''('']),
      (''setInterval'' @ backslash @ ''s*'' @ backslash @ ''('', [Chars ''setInterval'', SpaceStar, Chars ''(''])]"

definition callbackMethods :: "string list" where
  "callbackMethods = [''filter'', ''map'', ''find'', ''some'', ''every'', ''reduce'']"

definition staticNamespaces :: "string list" where
  "staticNamespaces = [''Object'', ''Math'', ''JSON'', ''Date'', ''Array'', ''Crypto'', ''String'', ''Number'']"

definition violation :: "ViolationType \<Rightarrow> string \<Rightarrow> Severity \<Rightarrow> SecurityViolation" where
  "violation t m sev = \<lparr> v_type = t, v_message = m, v_severity = Some sev \<rparr>"

definition validateIdentifier :: "string \<Rightarrow> SecurityViolation list" where
  "validateIdentifier name =
     (if List.member blockedIdentifiers name
      then [violation blocked_identifier
              (''Identifier '' @ [CHR 0x27] @ name @ [CHR 0x27] @ '' is blocked for security reasons'') SevError]
      else [])"

fun isPrototypePollutionPattern :: "node \<Rightarrow> bool" where
  "isPrototypePollutionPattern (MemberExpression ob prop computed) =
     (if computed \<and> (case prop of Literal (VStr s) \<Rightarrow> List.member blockedProperties s | _ \<Rightarrow> False)
      then True
      else (case ob of
              MemberExpression ob' prop' computed' \<Rightarrow> isPrototypePollutionPattern ob
            | _ \<Rightarrow> False))"
| "isPrototypePollutionPattern n = False"

fun getPropertyChainDepth :: "node \<Rightarrow> nat" where
  "getPropertyChainDepth (MemberExpression ob prop computed) =
     (case ob of
        MemberExpression ob' prop' computed' \<Rightarrow> 1 + getPropertyChainDepth ob
      | _ \<Rightarrow> 1)"
| "getPropertyChainDepth n = 1"

definition validateMemberExpression :: "node \<Rightarrow> SecurityViolation list" where
  "validateMemberExpression n =
     (case n of
        MemberExpression ob prop computed \<Rightarrow>
          (case prop of
             Identifier pname \<Rightarrow>
               (if \<not> computed \<and> List.member blockedProperties pname
                then [violation blocked_property
                        (''Property '' @ [CHR 0x27] @ pname @ [CHR 0x27] @ '' is blocked for security reasons'') SevError]
                else [])
           | _ \<Rightarrow> [])
          @ (if isPrototypePollutionPattern n
             then [violation blocked_pattern ''Potential prototype pollution pattern detected'' SevError]
             else [])
          @ (if getPropertyChainDepth n > 10
             then [violation depth_limit
                     (''Property chain too deep ('' @ show_nat (getPropertyChainDepth n) @ '' levels)'') SevWarning]
             else [])
      | _ \<Rightarrow> [])"

fun getMethodName :: "node \<Rightarrow> string option" where
  "getMethodName (MemberExpression ob (Identifier m) computed) = (if computed then None else Some m)"
| "getMethodName n = None"

fun getFullMethodName :: "node \<Rightarrow> string option" where
  "getFullMethodName (MemberExpression (Identifier obname) (Identifier m) computed) =
     (if \<not> computed \<and> List.member staticNamespaces obname then Some (obname @ ''.'' @ m) else None)"
| "getFullMethodName n = None"

definition validateCallbackMethodCall :: "node list \<Rightarrow> SecurityViolation list" where
  "validateCallbackMethodCall args =
     (case args of
        [] \<Rightarrow> [violation blocked_pattern ''Callback methods require at least one argument'' SevError]
      | firstArg # rest \<Rightarrow>
          (if node_type firstArg \<noteq> ''ArrowFunctionExpression''
           then [violation blocked_pattern ''Callback methods require arrow function arguments'' SevError]
           else []))"

text \<open>A string in a condition: null and the empty string are falsy.\<close>

definition present :: "string option \<Rightarrow> bool" where
  "present x = (case x of None \<Rightarrow> False | Some s \<Rightarrow> s \<noteq> [])"

definition validateCallExpression :: "FunctionRegistry \<Rightarrow> node \<Rightarrow> node list \<Rightarrow> SecurityViolation list" where
  "validateCallExpression reg callee args =
     (case callee of
        Identifier functionName \<Rightarrow>
          (if \<not> registry_has reg functionName
           then [violation blocked_identifier
                   (''Function '' @ [CHR 0x27] @ functionName @ [CHR 0x27] @ '' is not in the allowed function registry'')
                   SevError]
           else [])
      | _ \<Rightarrow> [])
     @ (case callee of
          MemberExpression ob prop computed \<Rightarrow>
            (let methodName = getMethodName callee;
                 fullMethodName = getFullMethodName callee;
                 isCallbackMethod = (present methodName \<and> List.member callbackMethods (the methodName))
             in if isCallbackMethod then validateCallbackMethodCall args
                else (let hasMethod = (present methodName \<and> registry_has reg (the methodName));
                          hasFullMethod = (present fullMethodName \<and> registry_has reg (the fullMethodName))
                      in if \<not> hasMethod \<and> \<not> hasFullMethod
                         then [violation blocked_identifier
                                 (''Method '' @ [CHR 0x27]
                                  @ (if present fullMethodName then the fullMethodName
                                     else (case methodName of None \<Rightarrow> ''null'' | Some m \<Rightarrow> m))
                                  @ [CHR 0x27] @ '' is not in the allowed function registry'') SevError]
                         else []))
        | _ \<Rightarrow> [])
     @ (if length args > 20
        then [violation complexity_limit
                (''Too many function arguments ('' @ show_nat (length args) @ '')'') SevWarning]
        else [])"

definition validateBinaryExpression :: "string \<Rightarrow> SecurityViolation list" where
  "validateBinaryExpression operator =
     (if List.member blockedOperators operator
      then [violation blocked_pattern
              (''Operator '' @ [CHR 0x27] @ operator @ [CHR 0x27] @ '' is not allowed'') SevError]
      else [])"

definition validateUnaryExpression :: "string \<Rightarrow> SecurityViolation list" where
  "validateUnaryExpression operator =
     (if List.member blockedOperators operator
      then [violation blocked_pattern
              (''Operator '' @ [CHR 0x27] @ operator @ [CHR 0x27] @ '' is not allowed'') SevError]
      else [])"

text \<open>\<open>params\<close> is an array in every node of the parser, so the first check of
  \<open>validateArrowFunction\<close> never fires.\<close>

definition validateArrowFunction :: "node list \<Rightarrow> SecurityViolation list" where
  "validateArrowFunction params =
     (if length params > 4
      then [violation complexity_limit
              (''Arrow functions cannot have more than 4 parameters (got '' @ show_nat (length params) @ '')'')
              SevError]
      else [])
     @ concat (map (\<lambda>param.
         (case param of
            Identifier pname \<Rightarrow>
              (if List.member blockedIdentifiers pname
               then [violation blocked_identifier
                       (''Parameter name '' @ [CHR 0x27] @ pname @ [CHR 0x27] @ '' is blocked for security reasons'')
                       SevError]
               else [])
          | _ \<Rightarrow> [violation invalid_node_type ''Arrow function parameters must be simple identifiers'' SevError]))
         params)"

definition validateLiteral :: "val \<Rightarrow> SecurityViolation list" where
  "validateLiteral v =
     (case v of
        VStr s \<Rightarrow>
          concat (map (\<lambda>(source, pattern).
                    if regex_test pattern s
                    then [violation blocked_pattern
                            (''String literal contains dangerous pattern: '' @ source) SevError]
                    else []) dangerousPatterns)
          @ (if length s > 10000
             then [violation complexity_limit
                     (''String literal too long ('' @ show_nat (length s) @ '' characters)'') SevWarning]
             else [])
      | _ \<Rightarrow> [])"

definition validateObjectExpression :: "node list \<Rightarrow> SecurityViolation list" where
  "validateObjectExpression props =
     (if length props > 50
      then [violation complexity_limit
              (''Object literal has too many properties ('' @ show_nat (length props) @ '')'') SevWarning]
      else [])"

definition applyBuiltInValidation :: "FunctionRegistry \<Rightarrow> node \<Rightarrow> SecurityViolation list" where
  "applyBuiltInValidation reg n =
     (case n of
        Identifier name \<Rightarrow> validateIdentifier name
      | MemberExpression ob prop computed \<Rightarrow> validateMemberExpression n
      | CallExpression callee args \<Rightarrow> validateCallExpression reg callee args
      | BinaryExpression operator l r \<Rightarrow> validateBinaryExpression operator
      | UnaryExpression operator a \<Rightarrow> validateUnaryExpression operator
      | ArrowFunctionExpression params body \<Rightarrow> validateArrowFunction params
      | Literal v \<Rightarrow> validateLiteral v
      | ObjectExpression props \<Rightarrow> validateObjectExpression props
      | _ \<Rightarrow> [])"

text \<open>A rule that throws is skipped.\<close>

definition applyCustomRules :: "SecurityRule list \<Rightarrow> ExpressionContext option \<Rightarrow> node \<Rightarrow> SecurityViolation list" where
  "applyCustomRules rules ctx n =
     concat (map (\<lambda>rule.
        (case rule_check rule n ctx of
           Some True \<Rightarrow> [violation blocked_pattern (rule_message rule) (rule_severity rule)]
         | _ \<Rightarrow> [])) rules)"

text \<open>The child nodes of a node, in the order \<open>validateChildren\<close> and \<open>walkAST\<close> meet
  them; the holes of an array are skipped.\<close>

fun children :: "node \<Rightarrow> node list" where
  "children (Literal v) = []"
| "children (Identifier n) = []"
| "children (MemberExpression ob p c) = [ob, p]"
| "children (CallExpression f as) = f # as"
| "children (BinaryExpression op l r) = [l, r]"
| "children (LogicalExpression op l r) = [l, r]"
| "children (ConditionalExpression t c a) = [t, c, a]"
| "children (UnaryExpression op a) = [a]"
| "children (ArrayExpression es) = concat (map (\<lambda>e. case e of None \<Rightarrow> [] | Some c \<Rightarrow> [c]) es)"
| "children (ObjectExpression ps) = ps"
| "children (Property k v c) = [k, v]"
| "children (ArrowFunctionExpression ps b) = ps @ [b]"
| "children (TemplateLiteral es qs) = es @ qs"
| "children TemplateElement = []"
| "children (Other t cs) = cs"

lemma size_list_member:
  "x \<in> set xs \<Longrightarrow> size x < Suc (size_list size xs)"
  by (induction xs) auto

lemma size_option_list_member:
  "Some x \<in> set xs \<Longrightarrow> size x < Suc (size_list (size_option size) xs)"
  by (induction xs) auto

lemma children_smaller:
  "c \<in> set (children n) \<Longrightarrow> size c < size n"
proof (cases n)
  case (ArrayExpression es)
  assume "c \<in> set (children n)"
  with ArrayExpression have "Some c \<in> set es"
    by (auto split: option.splits)
  from size_option_list_member [OF this] ArrayExpression show ?thesis by simp
qed (auto dest: size_list_member)

function validateNode ::
  "FunctionRegistry \<Rightarrow> SecurityRule list \<Rightarrow> ExpressionContext option \<Rightarrow> node \<Rightarrow> SecurityViolation list" where
  "validateNode reg rules ctx n =
     (if \<not> List.member supportedNodeTypes (node_type n)
      then [violation invalid_node_type
              (''Node type '' @ [CHR 0x27] @ node_type n @ [CHR 0x27] @ '' is not allowed'') SevError]
      else applyBuiltInValidation reg n
           @ applyCustomRules rules ctx n
           @ concat (map (validateNode reg rules ctx) (children n)))"
  by pat_completeness auto
termination
  by (relation "measure (\<lambda>(reg, rules, ctx, n). size n)") (auto simp: children_smaller)

declare validateNode.simps [simp del]

definition assessRiskLevel :: "SecurityViolation list \<Rightarrow> RiskLevel" where
  "assessRiskLevel vs =
     (let errorCount = length (filter (\<lambda>v. v_severity v = Some SevError) vs);
          warningCount = length (filter (\<lambda>v. v_severity v = Some SevWarning) vs)
      in if errorCount > 0 then RiskHigh
         else if warningCount > 2 then RiskMedium
         else RiskLow)"

text \<open>
  The validator's state: its cache, a map that keeps the order of insertion, the count
  it keeps beside it, and the custom rules in the order of the map that holds them.
\<close>

record SecurityValidator =
  validationCache :: "(string \<times> SecurityValidation) list"
  cacheSize :: nat
  customRules :: "SecurityRule list"

definition new_SecurityValidator :: SecurityValidator where
  "new_SecurityValidator = \<lparr> validationCache = [], cacheSize = 0, customRules = [] \<rparr>"

definition addRule :: "SecurityValidator \<Rightarrow> SecurityRule \<Rightarrow> SecurityValidator" where
  "addRule sv rule =
     sv\<lparr> customRules :=
           (if list_ex (\<lambda>r. rule_id r = rule_id rule) (customRules sv)
            then map (\<lambda>r. if rule_id r = rule_id rule then rule else r) (customRules sv)
            else customRules sv @ [rule]) \<rparr>"

text \<open>
  \<open>getCacheKey\<close>: the type of the node, the first 100 code units of its JSON text, and
  the first 50 of the context's; it throws when the host cannot print the context.
\<close>

definition validator_getCacheKey :: "host \<Rightarrow> node \<Rightarrow> ExpressionContext option \<Rightarrow> error + string" where
  "validator_getCacheKey h n ctx =
     (let nodeKey = node_type n @ '':'' @ take 100 (h_node_json h n)
      in case ctx of
           None \<Rightarrow> Inr (nodeKey @ ''|'')
         | Some c \<Rightarrow>
             (case h_JSON_stringify h (VObj c) of
                Inl e \<Rightarrow> Inl e
              | Inr (VStr js) \<Rightarrow> Inr (nodeKey @ ''|'' @ take 50 js)
              | Inr other \<Rightarrow>
                  Inl (Error (''Cannot read properties of undefined (reading ''
                              @ [CHR 0x27] @ ''substring'' @ [CHR 0x27] @ '')''))))"

definition maxValidationCacheSize :: nat where
  "maxValidationCacheSize = 500"

definition validator_setCached :: "SecurityValidator \<Rightarrow> string \<Rightarrow> SecurityValidation \<Rightarrow> SecurityValidator" where
  "validator_setCached sv key v =
     (let sv1 =
            (if cacheSize sv \<ge> maxValidationCacheSize
             then (case validationCache sv of
                     [] \<Rightarrow> sv
                   | (firstKey, x) # rest \<Rightarrow>
                       (if firstKey \<noteq> []
                        then sv\<lparr> validationCache := AList.delete firstKey (validationCache sv),
                                 cacheSize := cacheSize sv - 1 \<rparr>
                        else sv))
             else sv)
      in sv1\<lparr> validationCache := AList.update key v (validationCache sv1),
               cacheSize := cacheSize sv1 + 1 \<rparr>)"

text \<open>\<open>validate\<close>: a cached result is returned as it is; otherwise the tree is walked
  and the result stored.\<close>

definition validate ::
  "host \<Rightarrow> FunctionRegistry \<Rightarrow> SecurityValidator \<Rightarrow> node \<Rightarrow> ExpressionContext option
     \<Rightarrow> error + (SecurityValidation \<times> SecurityValidator)" where
  "validate h reg sv n ctx =
     (case validator_getCacheKey h n ctx of
        Inl e \<Rightarrow> Inl e
      | Inr cacheKey \<Rightarrow>
          (case map_of (validationCache sv) cacheKey of
             Some cached \<Rightarrow> Inr (cached, sv)
           | None \<Rightarrow>
               (let vs = validateNode reg (customRules sv) ctx n;
                    result = \<lparr> isValid = (length vs = 0), violations = vs,
                               riskLevel = Some (assessRiskLevel vs) \<rparr>
                in Inr (result, validator_setCached sv cacheKey result))))"

section \<open>Parser front-end\<close>

text \<open>
  \<open>ASTParser\<close>. \<open>walkAST\<close> visits a node and then its children, one level deeper.
  The weights of \<open>calculateComplexity\<close> are multiples of one half, which doubles add
  without error, so that the final rounding to one decimal changes nothing.
\<close>

definition complexity_weight :: "node \<Rightarrow> rat" where
  "complexity_weight n =
     (case n of
        CallExpression f as \<Rightarrow> 3
      | MemberExpression ob p c \<Rightarrow> 1
      | BinaryExpression op l r \<Rightarrow> 1
      | LogicalExpression op l r \<Rightarrow> 1
      | ConditionalExpression t c a \<Rightarrow> 4
      | ArrayExpression es \<Rightarrow> 2 + of_nat (length es) * (1 / 2)
      | ObjectExpression ps \<Rightarrow> 2 + of_nat (length ps) * (1 / 2)
      | ArrowFunctionExpression ps b \<Rightarrow> 5
      | _ \<Rightarrow> 1 / 2)"

function calculateComplexity :: "node \<Rightarrow> rat" where
  "calculateComplexity n = complexity_weight n + sum_list (map calculateComplexity (children n))"
  by pat_completeness auto
termination
  by (relation "measure size") (auto simp: children_smaller)

declare calculateComplexity.simps [simp del]

function calculateDepth :: "node \<Rightarrow> nat" where
  "calculateDepth n = foldr max (map (\<lambda>c. Suc (calculateDepth c)) (children n)) 0"
  by pat_completeness auto
termination
  by (relation "measure size") (auto simp: children_smaller)

declare calculateDepth.simps [simp del]

text \<open>The parsed expression, with the metadata the evaluator reads.\<close>

record ParsedExpression =
  ast :: node
  complexity :: rat
  depth :: nat

text \<open>
  \<open>parse\<close>. Its cache is keyed by the whole expression and stores what
  \<open>parseInternal\<close> returned, so that a hit returns what a miss computes; it is not
  modelled.
\<close>

definition parse :: "host \<Rightarrow> string \<Rightarrow> ParsedExpression option" where
  "parse h expression =
     (if expression = [] then None
      else if trim expression = [] then None
      else (case h_parse h (''('' @ trim expression @ '')'') of
              None \<Rightarrow> None
            | Some a \<Rightarrow> Some \<lparr> ast = a, complexity = calculateComplexity a, depth = calculateDepth a \<rparr>))"

record TemplateMatch =
  fullMatch :: string
  tm_expression :: string
  startIndex :: nat
  endIndex :: nat

definition is_brace :: "char \<Rightarrow> bool" where
  "is_brace c = (c = CHR ''{'' \<or> c = CHR ''}'')"

text \<open>A match of \<open>\{\{([^{}]*)\}\}\<close> at the start of a string: its group.\<close>

definition hole_at :: "string \<Rightarrow> string option" where
  "hole_at s =
     (if take 2 s = ''{{''
      then (let body = takeWhile (\<lambda>c. \<not> is_brace c) (drop 2 s)
            in if take 2 (drop (2 + length body) s) = ''}}'' then Some body else None)
      else None)"

fun hasTemplateExpressions :: "string \<Rightarrow> bool" where
  "hasTemplateExpressions [] = False"
| "hasTemplateExpressions (c # cs) = (hole_at (c # cs) \<noteq> None \<or> hasTemplateExpressions cs)"

text \<open>\<open>extractTemplateExpressions\<close>: the matches from left to right, each search
  starting where the match before ended; a hole that is empty once trimmed is skipped.
  \<open>extract_from i s\<close> scans the rest \<open>s\<close> of the template, which starts at index \<open>i\<close>.\<close>

function extract_from :: "nat \<Rightarrow> string \<Rightarrow> TemplateMatch list" where
  "extract_from i [] = []"
| "extract_from i (c # cs) =
     (case hole_at (c # cs) of
        None \<Rightarrow> extract_from (Suc i) cs
      | Some body \<Rightarrow>
          (if trim body \<noteq> []
           then [\<lparr> fullMatch = take (length body + 4) (c # cs), tm_expression = trim body,
                    startIndex = i, endIndex = i + (length body + 4) \<rparr>]
           else [])
          @ extract_from (i + (length body + 4)) (drop (length body + 4) (c # cs)))"
  by pat_completeness auto
termination
  by (relation "measure (\<lambda>(i, s). length s)") auto

definition extractTemplateExpressions :: "string \<Rightarrow> TemplateMatch list" where
  "extractTemplateExpressions template = extract_from 0 template"

text \<open>
  \<open>replaceTemplateExpressions\<close>: the matches are processed from the last to the first;
  the replacer runs on each, may change the state \<open>'s\<close> of its owner and may throw, which
  ends the loop. \<open>replace_loop\<close> takes the matches in that order.
\<close>

fun replace_loop ::
  "(string \<Rightarrow> TemplateMatch \<Rightarrow> 's \<Rightarrow> (error + string) \<times> 's) \<Rightarrow> TemplateMatch list \<Rightarrow> string \<Rightarrow> 's
     \<Rightarrow> (error + string) \<times> 's" where
  "replace_loop replacer [] result st = (Inr result, st)"
| "replace_loop replacer (m # ms) result st =
     (case replacer (tm_expression m) m st of
        (Inl e, st') \<Rightarrow> (Inl e, st')
      | (Inr replacement, st') \<Rightarrow>
          replace_loop replacer ms
            (take (startIndex m) result @ replacement @ drop (endIndex m) result) st')"

definition replaceTemplateExpressions ::
  "string \<Rightarrow> (string \<Rightarrow> TemplateMatch \<Rightarrow> 's \<Rightarrow> (error + string) \<times> 's) \<Rightarrow> 's \<Rightarrow> (error + string) \<times> 's" where
  "replaceTemplateExpressions template replacer st =
     replace_loop replacer (rev (extractTemplateExpressions template)) template st"

section \<open>Orchestrator: validation\<close>

text \<open>The options of \<open>Kangaroo\<close> that decide a result.\<close>

record EvaluatorOptions =
  maxComplexity :: rat
  maxDepth :: rat
  strictMode :: bool
  enableCaching :: bool

definition default_options :: EvaluatorOptions where
  "default_options = \<lparr> maxComplexity = 100, maxDepth = 10, strictMode = True, enableCaching = True \<rparr>"

text \<open>The violations \<open>Kangaroo.validate\<close> adds itself have no severity.\<close>

definition plain_violation :: "ViolationType \<Rightarrow> string \<Rightarrow> SecurityViolation" where
  "plain_violation t m = \<lparr> v_type = t, v_message = m, v_severity = None \<rparr>"

text \<open>The loop of \<open>Kangaroo.validate\<close> over the expressions; a throw leaves it.\<close>

fun validate_expressions ::
  "host \<Rightarrow> FunctionRegistry \<Rightarrow> EvaluatorOptions \<Rightarrow> string list \<Rightarrow> SecurityViolation list
     \<Rightarrow> SecurityValidator \<Rightarrow> (error + SecurityViolation list) \<times> SecurityValidator" where
  "validate_expressions h reg opts [] allViolations sv = (Inr allViolations, sv)"
| "validate_expressions h reg opts (expr # rest) allViolations sv =
     (if trim expr = [] then validate_expressions h reg opts rest allViolations sv
      else (case parse h expr of
              None \<Rightarrow>
                validate_expressions h reg opts rest
                  (allViolations @ [plain_violation blocked_pattern (''Invalid syntax in expression: '' @ expr)]) sv
            | Some parsed \<Rightarrow>
                (let v1 = (if complexity parsed > maxComplexity opts
                           then [plain_violation complexity_limit
                                   (''Expression too complex ('' @ h_num_to_string h (Fin (complexity parsed))
                                    @ '' > '' @ h_num_to_string h (Fin (maxComplexity opts)) @ '')'')]
                           else []);
                     v2 = (if of_nat (depth parsed) > maxDepth opts
                           then [plain_violation depth_limit
                                   (''Expression too deep ('' @ show_nat (depth parsed)
                                    @ '' > '' @ h_num_to_string h (Fin (maxDepth opts)) @ '')'')]
                           else [])
                 in case validate h reg sv (ast parsed) None of
                      Inl e \<Rightarrow> (Inl e, sv)
                    | Inr (validation, sv') \<Rightarrow>
                        validate_expressions h reg opts rest
                          (allViolations @ v1 @ v2 @ violations validation) sv')))"

text \<open>\<open>assessOverallRisk\<close> counts as the validator's \<open>assessRiskLevel\<close> does; a violation
  without severity counts nowhere.\<close>

definition assessOverallRisk :: "SecurityViolation list \<Rightarrow> RiskLevel" where
  "assessOverallRisk vs =
     (let errorCount = length (filter (\<lambda>v. v_severity v = Some SevError) vs);
          warningCount = length (filter (\<lambda>v. v_severity v = Some SevWarning) vs)
      in if errorCount > 0 then RiskHigh
         else if warningCount > 2 then RiskMedium
         else RiskLow)"

definition Kangaroo_validate ::
  "host \<Rightarrow> FunctionRegistry \<Rightarrow> EvaluatorOptions \<Rightarrow> SecurityValidator \<Rightarrow> string
     \<Rightarrow> SecurityValidation \<times> SecurityValidator" where
  "Kangaroo_validate h reg opts sv expression =
     (if expression = [] then (\<lparr> isValid = True, violations = [], riskLevel = None \<rparr>, sv)
      else if trim expression = [] then (\<lparr> isValid = True, violations = [], riskLevel = None \<rparr>, sv)
      else (let expressions =
                  (if hasTemplateExpressions (trim expression)
                   then map tm_expression (extractTemplateExpressions (trim expression))
                   else [trim expression])
            in case validate_expressions h reg opts expressions [] sv of
                 (Inr allViolations, sv') \<Rightarrow>
                   (\<lparr> isValid = (length allViolations = 0), violations = allViolations,
                      riskLevel = Some (assessOverallRisk allViolations) \<rparr>, sv')
               | (Inl (Error msg), sv') \<Rightarrow>
                   (\<lparr> isValid = False, violations = [plain_violation blocked_pattern msg],
                      riskLevel = None \<rparr>, sv')))"

section \<open>Executor\<close>

text \<open>
  \<open>ASTExecutor\<close>, with the array operations of \<open>callbacks/operations.ts\<close> that
  call back into it. What a run can change is gathered in one state: the property cache
  of the executor with the count kept beside it, the length of its execution stack, and
  the security validator, which the callback evaluator consults. The wall clock is not
  modelled: the runs described are those that stay within the timeout. The statistics
  and the metadata of a result are left out.
\<close>

record Engine =
  propertyCache :: "(string \<times> val) list"
  propertyCacheSize :: nat
  executionStack :: nat
  securityValidator :: SecurityValidator

definition new_Engine :: Engine where
  "new_Engine = \<lparr> propertyCache = [], propertyCacheSize = 0, executionStack = 0,
                   securityValidator = new_SecurityValidator \<rparr>"

text \<open>What an executor is built with: the host, the function registry, its options,
  and whether \<open>setArrayOperations\<close> has been called.\<close>

record ExecutorEnv =
  env_host :: host
  env_registry :: FunctionRegistry
  env_maxStackDepth :: nat
  env_errorHandler :: "(error \<Rightarrow> node \<Rightarrow> ExpressionContext \<Rightarrow> error + val) option"
  env_arrayOperations :: bool

datatype ErrorType = ErrSyntax | ErrSecurity | ErrRuntime | ErrType | ErrComplexity | ErrTimeout

datatype EvaluationResult = Success val | Failure string ErrorType

definition throw :: "string \<Rightarrow> 's \<Rightarrow> (error + 'a) \<times> 's" where
  "throw msg st = (Inl (Error msg), st)"

definition and_then :: "(error + 'a) \<times> 's \<Rightarrow> ('a \<Rightarrow> 's \<Rightarrow> (error + 'b) \<times> 's) \<Rightarrow> (error + 'b) \<times> 's" where
  "and_then r f = (case r of (Inl e, st) \<Rightarrow> (Inl e, st) | (Inr x, st) \<Rightarrow> f x st)"

definition quoted :: "string \<Rightarrow> string" where
  "quoted s = [CHR 0x27] @ s @ [CHR 0x27]"

text \<open>\<open>executeIdentifier\<close>: the context is asked with \<open>in\<close>, which also finds what
  the context inherits.\<close>

definition executeIdentifier :: "host \<Rightarrow> string \<Rightarrow> ExpressionContext \<Rightarrow> val" where
  "executeIdentifier h name ctx =
     (if has_in h (VObj ctx) name then get_property h (VObj ctx) name
      else if name = ''undefined'' then VUndefined
      else if name = ''null'' then VNull
      else if name = ''true'' then VBool True
      else if name = ''false'' then VBool False
      else if name = ''Infinity'' then VNum PosInf
      else if name = ''NaN'' then VNum NaN
      else VUndefined)"

definition maxPropertyCacheSize :: nat where
  "maxPropertyCacheSize = 1000"

definition executor_setCached :: "Engine \<Rightarrow> string \<Rightarrow> val \<Rightarrow> Engine" where
  "executor_setCached st key v =
     (let st1 =
            (if propertyCacheSize st \<ge> maxPropertyCacheSize
             then (case propertyCache st of
                     [] \<Rightarrow> st
                   | (firstKey, x) # rest \<Rightarrow>
                       (if firstKey \<noteq> []
                        then st\<lparr> propertyCache := AList.delete firstKey (propertyCache st),
                                 propertyCacheSize := propertyCacheSize st - 1 \<rparr>
                        else st))
             else st)
      in st1\<lparr> propertyCache := AList.update key v (propertyCache st1),
               propertyCacheSize := propertyCacheSize st1 + 1 \<rparr>)"

definition runtimeBlockedProps :: "string list" where
  "runtimeBlockedProps =
     [''constructor'', ''prototype'', ''__proto__'', ''__defineGetter__'', ''__defineSetter__'',
      ''__lookupGetter__'', ''__lookupSetter__'', ''valueOf'', ''toString'']"

text \<open>\<open>property < 0 || property >= object.length\<close> on a number.\<close>

fun out_of_bounds :: "jsnum \<Rightarrow> nat \<Rightarrow> bool" where
  "out_of_bounds (Fin q) len = (q < 0 \<or> q \<ge> of_nat len)"
| "out_of_bounds NaN len = False"
| "out_of_bounds PosInf len = True"
| "out_of_bounds NegInf len = True"

text \<open>
  \<open>safePropertyAccess\<close>, on a receiver that is not nullish. The cache is read, for a
  receiver that is not an object, before the denylist is consulted; a cached undefined
  counts as a miss.
\<close>

definition safePropertyAccess :: "host \<Rightarrow> val \<Rightarrow> val \<Rightarrow> Engine \<Rightarrow> (error + val) \<times> Engine" where
  "safePropertyAccess h object property st =
     (case js_String h property of
        Inl e \<Rightarrow> (Inl e, st)
      | Inr pkey \<Rightarrow>
          (let cacheKey = typeof object @ '':'' @ pkey;
               cached = (if typeof object \<noteq> ''object'' \<or> object = VNull
                         then (case map_of (propertyCache st) cacheKey of
                                 Some c \<Rightarrow> (if c \<noteq> VUndefined then Some c else None)
                               | None \<Rightarrow> None)
                         else None)
           in case cached of
                Some c \<Rightarrow> (Inr c, st)
              | None \<Rightarrow>
                  (if typeof property = ''string'' \<and> List.member runtimeBlockedProps pkey
                   then throw (''Property '' @ quoted pkey @ '' is blocked for security reasons'') st
                   else if isArray object \<and> typeof property = ''number''
                           \<and> (case (object, property) of
                                 (VArr xs, VNum n) \<Rightarrow> out_of_bounds n (length xs)
                               | _ \<Rightarrow> False)
                   then (Inr VUndefined, st)
                   else if property = VStr ''length''
                   then (let result =
                               (case object of
                                  VArr xs \<Rightarrow> VNum (Fin (of_nat (length xs)))
                                | _ \<Rightarrow> (if nullish (get_property h object ''length'') then VNum (Fin 0)
                                        else get_property h object ''length''))
                         in (Inr result, executor_setCached st cacheKey result))
                   else (let result = get_property h object pkey
                         in (Inr result,
                             if typeof result \<noteq> ''object'' \<or> result = VNull
                             then executor_setCached st cacheKey result else st)))))"

text \<open>\<open>validateFunctionCall\<close>: the error it throws, if any.\<close>

definition validateFunctionCall :: "SafeFunction \<Rightarrow> val list \<Rightarrow> bool \<Rightarrow> error option" where
  "validateFunctionCall func args isMethodCall =
     (let lo = (case minArgs func of None \<Rightarrow> 0 | Some m \<Rightarrow> m);
          effectiveMinArgs = (if isMethodCall then lo - 1 else lo)
      in if length args < effectiveMinArgs
         then Some (Error (''Function '' @ quoted (fn_name func) @ '' requires at least ''
                           @ show_nat effectiveMinArgs @ '' arguments, got '' @ show_nat (length args)))
         else if (case maxArgs func of None \<Rightarrow> False | Some m \<Rightarrow> length args > m)
         then Some (Error (''Function '' @ quoted (fn_name func) @ '' accepts at most ''
                           @ show_nat (the (maxArgs func)) @ '' arguments, got '' @ show_nat (length args)))
         else (case find (\<lambda>(argIndex, typeCheck). argIndex < length args \<and> \<not> typeCheck (args ! argIndex))
                      (typeChecks func) of
                 Some (argIndex, typeCheck) \<Rightarrow>
                   Some (Error (''Function '' @ quoted (fn_name func) @ '' argument ''
                                @ show_nat argIndex @ '' has invalid type''))
               | None \<Rightarrow> None))"

definition executeFunction :: "FunctionRegistry \<Rightarrow> string \<Rightarrow> val list \<Rightarrow> 's \<Rightarrow> (error + val) \<times> 's" where
  "executeFunction reg name args st =
     (case reg name of
        None \<Rightarrow> throw (''Function '' @ quoted name @ '' is not defined'') st
      | Some func \<Rightarrow>
          (case validateFunctionCall func args False of
             Some e \<Rightarrow> (Inl e, st)
           | None \<Rightarrow>
               (case fn_impl func args of
                  Inl (Error msg) \<Rightarrow> throw (''Error in function '' @ quoted name @ '': '' @ msg) st
                | Inr v \<Rightarrow> (Inr v, st))))"

definition executeMethod :: "FunctionRegistry \<Rightarrow> val \<Rightarrow> string \<Rightarrow> val list \<Rightarrow> 's \<Rightarrow> (error + val) \<times> 's" where
  "executeMethod reg object methodName args st =
     (case reg methodName of
        None \<Rightarrow> throw (''Method '' @ quoted methodName @ '' is not defined'') st
      | Some func \<Rightarrow>
          (case validateFunctionCall func (object # args) True of
             Some e \<Rightarrow> (Inl e, st)
           | None \<Rightarrow>
               (case fn_impl func (object # args) of
                  Inl (Error msg) \<Rightarrow> throw (''Error in method '' @ quoted methodName @ '': '' @ msg) st
                | Inr v \<Rightarrow> (Inr v, st))))"

text \<open>\<open>result[key] = value\<close> on an object under construction. An assignment to
  \<open>__proto__\<close> reaches the setter the host's \<open>Object.prototype\<close> has and adds no own
  property. The host lists the own properties of an object with the array indices
  first, in ascending order, and the other keys behind them in the order of their
  creation: a new key takes its place in that order, and a key the object has
  keeps its place.\<close>

definition index_key :: "string \<Rightarrow> nat option" where
  "index_key k =
     (case array_index k of
        Some i \<Rightarrow> (if i < 4294967295 then Some i else None)
      | None \<Rightarrow> None)"

definition before_index :: "nat \<Rightarrow> string \<times> val \<Rightarrow> bool" where
  "before_index i kv = (case index_key (fst kv) of Some j \<Rightarrow> j < i | None \<Rightarrow> False)"

definition obj_set :: "(string \<times> val) list \<Rightarrow> string \<Rightarrow> val \<Rightarrow> (string \<times> val) list" where
  "obj_set kvs k v =
     (if k = ''__proto__'' then kvs
      else if map_of kvs k \<noteq> None then AList.update k v kvs
      else (case index_key k of
              None \<Rightarrow> kvs @ [(k, v)]
            | Some i \<Rightarrow> takeWhile (before_index i) kvs @ [(k, v)] @ dropWhile (before_index i) kvs))"

subsection \<open>The callback evaluator and the array operations\<close>

text \<open>The test \<open>^[a-zA-Z_$][a-zA-Z0-9_$]*$\<close> on a parameter name.\<close>

definition valid_identifier_name :: "string \<Rightarrow> bool" where
  "valid_identifier_name s =
     (case s of
        [] \<Rightarrow> False
      | c # cs \<Rightarrow> (is_letter c \<or> c = CHR ''_'' \<or> c = CHR ''$'')
                 \<and> list_all (\<lambda>d. is_letter d \<or> is_digit d \<or> d = CHR ''_'' \<or> d = CHR ''$'') cs)"

definition valid_param :: "node \<Rightarrow> bool" where
  "valid_param param = (case param of Identifier pname \<Rightarrow> valid_identifier_name pname | _ \<Rightarrow> False)"

text \<open>
  \<open>ASTCallbackEvaluator.validateArrowFunction\<close> on an arrow function with the given
  parameters and body: at most three parameters, each a plain name, and a body the
  security validator finds valid.
\<close>

definition callback_validateArrowFunction ::
  "host \<Rightarrow> FunctionRegistry \<Rightarrow> node list \<Rightarrow> node \<Rightarrow> Engine \<Rightarrow> (error + bool) \<times> Engine" where
  "callback_validateArrowFunction h reg params body st =
     (if length params > 3 then (Inr False, st)
      else if \<not> list_all valid_param params then (Inr False, st)
      else (case validate h reg (securityValidator st) body None of
              Inl e \<Rightarrow> (Inl e, st)
            | Inr (validation, sv') \<Rightarrow> (Inr (isValid validation), st\<lparr> securityValidator := sv' \<rparr>)))"

text \<open>The parameters bound to the arguments by position, on a copy of the context; a
  parameter beyond the arguments is not bound.\<close>

fun bind_params :: "node list \<Rightarrow> val list \<Rightarrow> ExpressionContext \<Rightarrow> ExpressionContext" where
  "bind_params [] args ctx = ctx"
| "bind_params (param # ps) [] ctx = ctx"
| "bind_params (param # ps) (a # as) ctx =
     bind_params ps as (case param of Identifier pname \<Rightarrow> obj_set ctx pname a | _ \<Rightarrow> ctx)"

text \<open>
  \<open>executeCallback\<close>, given \<open>run_body\<close>, which is \<open>executor.execute\<close> on the body of
  the arrow function.
\<close>

definition executeCallback_with ::
  "(ExpressionContext \<Rightarrow> Engine \<Rightarrow> EvaluationResult \<times> Engine) \<Rightarrow> host \<Rightarrow> FunctionRegistry
     \<Rightarrow> node list \<Rightarrow> node \<Rightarrow> val list \<Rightarrow> ExpressionContext \<Rightarrow> Engine \<Rightarrow> (error + val) \<times> Engine" where
  "executeCallback_with run_body h reg params body callbackArgs baseContext st =
     (case callback_validateArrowFunction h reg params body st of
        (Inl e, st1) \<Rightarrow> (Inl e, st1)
      | (Inr False, st1) \<Rightarrow> throw ''Invalid or unsafe arrow function'' st1
      | (Inr True, st1) \<Rightarrow>
          (case run_body (bind_params params callbackArgs baseContext) st1 of
             (Failure msg et, st2) \<Rightarrow>
               throw (if msg = [] then ''Callback execution failed'' else msg) st2
           | (Success v, st2) \<Rightarrow> (Inr v, st2)))"

text \<open>
  The array operations, each over the elements from index \<open>i\<close> on, with the callback
  \<open>cb\<close> on the arguments of one element; a throw of the callback is caught in the
  element's own \<open>try\<close>.
\<close>

type_synonym callback = "val list \<Rightarrow> Engine \<Rightarrow> (error + val) \<times> Engine"

definition index_val :: "nat \<Rightarrow> val" where
  "index_val i = VNum (Fin (of_nat i))"

fun filter_from :: "callback \<Rightarrow> val list \<Rightarrow> nat \<Rightarrow> val list \<Rightarrow> Engine \<Rightarrow> val list \<times> Engine" where
  "filter_from cb array i [] st = ([], st)"
| "filter_from cb array i (item # rest) st =
     (case cb [item, index_val i, VArr array] st of
        (r, st1) \<Rightarrow>
          (case filter_from cb array (Suc i) rest st1 of
             (kept, st2) \<Rightarrow>
               ((if (case r of Inr v \<Rightarrow> truthy v | Inl e \<Rightarrow> False) then item # kept else kept), st2)))"

fun map_from :: "callback \<Rightarrow> val list \<Rightarrow> nat \<Rightarrow> val list \<Rightarrow> Engine \<Rightarrow> val list \<times> Engine" where
  "map_from cb array i [] st = ([], st)"
| "map_from cb array i (item # rest) st =
     (case cb [item, index_val i, VArr array] st of
        (r, st1) \<Rightarrow>
          (case map_from cb array (Suc i) rest st1 of
             (mapped, st2) \<Rightarrow> ((case r of Inr v \<Rightarrow> v | Inl e \<Rightarrow> VUndefined) # mapped, st2)))"

fun find_from :: "callback \<Rightarrow> val list \<Rightarrow> nat \<Rightarrow> val list \<Rightarrow> Engine \<Rightarrow> val \<times> Engine" where
  "find_from cb array i [] st = (VUndefined, st)"
| "find_from cb array i (item # rest) st =
     (case cb [item, index_val i, VArr array] st of
        (r, st1) \<Rightarrow>
          (if (case r of Inr v \<Rightarrow> truthy v | Inl e \<Rightarrow> False) then (item, st1)
           else find_from cb array (Suc i) rest st1))"

fun some_from :: "callback \<Rightarrow> val list \<Rightarrow> nat \<Rightarrow> val list \<Rightarrow> Engine \<Rightarrow> bool \<times> Engine" where
  "some_from cb array i [] st = (False, st)"
| "some_from cb array i (item # rest) st =
     (case cb [item, index_val i, VArr array] st of
        (r, st1) \<Rightarrow>
          (if (case r of Inr v \<Rightarrow> truthy v | Inl e \<Rightarrow> False) then (True, st1)
           else some_from cb array (Suc i) rest st1))"

fun every_from :: "callback \<Rightarrow> val list \<Rightarrow> nat \<Rightarrow> val list \<Rightarrow> Engine \<Rightarrow> bool \<times> Engine" where
  "every_from cb array i [] st = (True, st)"
| "every_from cb array i (item # rest) st =
     (case cb [item, index_val i, VArr array] st of
        (r, st1) \<Rightarrow>
          (if (case r of Inr v \<Rightarrow> truthy v | Inl e \<Rightarrow> False) then every_from cb array (Suc i) rest st1
           else (False, st1)))"

fun reduce_from :: "callback \<Rightarrow> val list \<Rightarrow> nat \<Rightarrow> val list \<Rightarrow> val \<Rightarrow> Engine \<Rightarrow> val \<times> Engine" where
  "reduce_from cb array i [] accumulator st = (accumulator, st)"
| "reduce_from cb array i (item # rest) accumulator st =
     (case cb [accumulator, item, index_val i, VArr array] st of
        (r, st1) \<Rightarrow>
          reduce_from cb array (Suc i) rest (case r of Inr v \<Rightarrow> v | Inl e \<Rightarrow> accumulator) st1)"

text \<open>
  \<open>executeCallbackMethod\<close> on an array, once its first argument is known to be an
  arrow function with callback \<open>cb\<close>; \<open>rest\<close> are the other arguments, a value each, or
  a node where the argument is another arrow function.
\<close>

definition node_as_value :: "node \<Rightarrow> val" where
  "node_as_value n = VHostObj (node_type n)"

definition executeCallbackMethod ::
  "callback \<Rightarrow> val list \<Rightarrow> string \<Rightarrow> (node + val) list \<Rightarrow> Engine \<Rightarrow> (error + val) \<times> Engine" where
  "executeCallbackMethod cb array methodName rest st =
     (if methodName = ''filter'' then (case filter_from cb array 0 array st of (r, st') \<Rightarrow> (Inr (VArr r), st'))
      else if methodName = ''map'' then (case map_from cb array 0 array st of (r, st') \<Rightarrow> (Inr (VArr r), st'))
      else if methodName = ''find'' then (case find_from cb array 0 array st of (r, st') \<Rightarrow> (Inr r, st'))
      else if methodName = ''some'' then (case some_from cb array 0 array st of (r, st') \<Rightarrow> (Inr (VBool r), st'))
      else if methodName = ''every'' then (case every_from cb array 0 array st of (r, st') \<Rightarrow> (Inr (VBool r), st'))
      else if methodName = ''reduce''
      then (let initialValue =
                  (case rest of
                     [] \<Rightarrow> VUndefined
                   | Inr v # others \<Rightarrow> v
                   | Inl n # others \<Rightarrow> node_as_value n)
            in case reduce_from cb array 0 array initialValue st of (r, st') \<Rightarrow> (Inr r, st'))
      else throw (''Unsupported callback method: '' @ methodName) st)"

subsection \<open>The walk\<close>

definition supportedBinaryOperators :: "string list" where
  "supportedBinaryOperators =
     [''+'', ''-'', ''*'', ''/'', ''%'', ''**'', ''=='', ''!='', ''==='', ''!=='',
      ''<'', ''<='', ''>'', ''>='', ''in'']"

definition executeBinaryOperator :: "host \<Rightarrow> string \<Rightarrow> val \<Rightarrow> val \<Rightarrow> 's \<Rightarrow> (error + val) \<times> 's" where
  "executeBinaryOperator h operator left right st =
     (if List.member supportedBinaryOperators operator then (h_binary h operator left right, st)
      else throw (''Unsupported binary operator: '' @ operator) st)"

definition executeUnaryOperator :: "host \<Rightarrow> string \<Rightarrow> val \<Rightarrow> 's \<Rightarrow> (error + val) \<times> 's" where
  "executeUnaryOperator h operator argument st =
     (if operator = ''+'' \<or> operator = ''-'' then (h_unary h operator argument, st)
      else if operator = ''!'' then (Inr (VBool (\<not> truthy argument)), st)
      else if operator = ''typeof'' then (Inr (VStr (typeof argument)), st)
      else if operator = ''void'' then (Inr VUndefined, st)
      else throw (''Unsupported unary operator: '' @ operator) st)"

text \<open>
  The frame of \<open>executeNode\<close>: the depth check, which throws before anything is
  pushed, then the push, the dispatch, and the pop of the \<open>finally\<close>, which leaves an
  empty stack empty.
\<close>

definition effectiveMaxStackDepth :: "ExecutorEnv \<Rightarrow> nat" where
  "effectiveMaxStackDepth env = (if env_maxStackDepth env = 0 then 50 else env_maxStackDepth env)"

definition framed :: "ExecutorEnv \<Rightarrow> Engine \<Rightarrow> (Engine \<Rightarrow> (error + val) \<times> Engine) \<Rightarrow> (error + val) \<times> Engine" where
  "framed env st body =
     (if executionStack st \<ge> effectiveMaxStackDepth env
      then throw (''Maximum stack depth exceeded ('' @ show_nat (effectiveMaxStackDepth env) @ '')'') st
      else (case body (st\<lparr> executionStack := Suc (executionStack st) \<rparr>) of
              (r, st') \<Rightarrow> (r, st'\<lparr> executionStack := executionStack st' - 1 \<rparr>)))"

text \<open>\<open>categorizeError\<close> looks for words in the message, in lower case.\<close>

fun includes_ci :: "string \<Rightarrow> string \<Rightarrow> bool" where
  "includes_ci [] needle = starts_with_ci needle []"
| "includes_ci (c # cs) needle = (starts_with_ci needle (c # cs) \<or> includes_ci cs needle)"

definition categorizeError :: "string \<Rightarrow> ErrorType" where
  "categorizeError message =
     (if includes_ci message ''timeout'' then ErrTimeout
      else if includes_ci message ''blocked'' \<or> includes_ci message ''security'' then ErrSecurity
      else if includes_ci message ''type'' \<or> includes_ci message ''argument'' then ErrType
      else if includes_ci message ''syntax'' \<or> includes_ci message ''invalid'' then ErrSyntax
      else ErrRuntime)"

text \<open>
  What \<open>execute\<close> makes of the outcome of \<open>executeNode\<close> on its node: the value is a
  success; a throw goes to the error handler, if there is one and it does not throw
  itself, and is a failure otherwise. The stack is emptied at the end.
\<close>

definition finish_execute ::
  "ExecutorEnv \<Rightarrow> node \<Rightarrow> ExpressionContext \<Rightarrow> (error + val) \<times> Engine \<Rightarrow> EvaluationResult \<times> Engine" where
  "finish_execute env n ctx outcome =
     (case outcome of
        (Inr v, st) \<Rightarrow> (Success v, st\<lparr> executionStack := 0 \<rparr>)
      | (Inl (Error msg), st) \<Rightarrow>
          (case (case env_errorHandler env of
                   None \<Rightarrow> None
                 | Some handler \<Rightarrow> (case handler (Error msg) n ctx of Inr v \<Rightarrow> Some v | Inl e \<Rightarrow> None)) of
             Some handledResult \<Rightarrow> (Success handledResult, st\<lparr> executionStack := 0 \<rparr>)
           | None \<Rightarrow> (Failure msg (categorizeError msg), st\<lparr> executionStack := 0 \<rparr>)))"

text \<open>
  \<open>executeNode\<close> and its loops over the arguments of a call, the elements of an array
  and the properties of an object. In a call of a callback method on an array the
  arguments are evaluated but for the arrow functions, which are kept as nodes; the
  first of them is then the callback, run on its body by \<open>execute\<close>, which starts on an
  empty stack. The executor's own \<open>getMethodName\<close> and \<open>getFullMethodName\<close> are the
  validator's, word for word. An evaluated argument that is an object with an own
  property \<open>type\<close> equal to \<open>'ArrowFunctionExpression'\<close> would be taken for a node by
  the source; such a value is outside the model.
\<close>

function executeNode :: "ExecutorEnv \<Rightarrow> node \<Rightarrow> ExpressionContext \<Rightarrow> Engine \<Rightarrow> (error + val) \<times> Engine"
and executeNodes :: "ExecutorEnv \<Rightarrow> node list \<Rightarrow> ExpressionContext \<Rightarrow> Engine \<Rightarrow> (error + val list) \<times> Engine"
and executeElements :: "ExecutorEnv \<Rightarrow> node option list \<Rightarrow> ExpressionContext \<Rightarrow> Engine \<Rightarrow> (error + val list) \<times> Engine"
and executeProperties ::
  "ExecutorEnv \<Rightarrow> node list \<Rightarrow> ExpressionContext \<Rightarrow> (string \<times> val) list \<Rightarrow> Engine \<Rightarrow> (error + val) \<times> Engine"
and executeCallbackArgs ::
  "ExecutorEnv \<Rightarrow> node list \<Rightarrow> ExpressionContext \<Rightarrow> Engine \<Rightarrow> (error + (node + val) list) \<times> Engine"
where
  "executeNode env (Literal v) ctx st = framed env st (\<lambda>st1. (Inr v, st1))"
| "executeNode env (Identifier name) ctx st =
     framed env st (\<lambda>st1. (Inr (executeIdentifier (env_host env) name ctx), st1))"
| "executeNode env (MemberExpression ob prop computed) ctx st =
     framed env st (\<lambda>st1.
       and_then (executeNode env ob ctx st1) (\<lambda>object st2.
         if nullish object then (Inr VUndefined, st2)
         else and_then
                (if computed then executeNode env prop ctx st2
                 else (case prop of
                         Identifier pname \<Rightarrow> (Inr (VStr pname), st2)
                       | _ \<Rightarrow> throw ''Invalid property access'' st2))
                (\<lambda>property st3. safePropertyAccess (env_host env) object property st3)))"
| "executeNode env (CallExpression callee args) ctx st =
     framed env st (\<lambda>st1.
       case callee of
         Identifier fname \<Rightarrow>
           and_then (executeNodes env args ctx st1)
             (\<lambda>vals st2. executeFunction (env_registry env) fname vals st2)
       | MemberExpression ob prop computed \<Rightarrow>
           (if \<not> present (getMethodName callee) then throw ''Invalid method call'' st1
            else if present (getFullMethodName callee)
                    \<and> registry_has (env_registry env) (the (getFullMethodName callee))
            then and_then (executeNodes env args ctx st1)
                   (\<lambda>vals st2. executeFunction (env_registry env) (the (getFullMethodName callee)) vals st2)
            else and_then (executeNode env ob ctx st1) (\<lambda>object st2.
                   if List.member callbackMethods (the (getMethodName callee)) \<and> isArray object
                   then (if \<not> env_arrayOperations env then throw ''Array operations not initialized'' st2
                         else and_then (executeCallbackArgs env args ctx st2) (\<lambda>evaluatedArgs st3.
                                case args of
                                  [] \<Rightarrow> throw (the (getMethodName callee) @ '' requires a callback argument'') st3
                                | ArrowFunctionExpression params body # rest \<Rightarrow>
                                    executeCallbackMethod
                                      (\<lambda>callbackArgs st4.
                                         executeCallback_with
                                           (\<lambda>callbackContext st5.
                                              finish_execute env body callbackContext
                                                (executeNode env body callbackContext (st5\<lparr> executionStack := 0 \<rparr>)))
                                           (env_host env) (env_registry env) params body callbackArgs ctx st4)
                                      (case object of VArr xs \<Rightarrow> xs | _ \<Rightarrow> [])
                                      (the (getMethodName callee)) (tl evaluatedArgs) st3
                                | other # rest \<Rightarrow>
                                    throw (the (getMethodName callee) @ '' requires an arrow function callback'') st3))
                   else and_then (executeNodes env args ctx st2)
                          (\<lambda>vals st3. executeMethod (env_registry env) object (the (getMethodName callee)) vals st3)))
       | _ \<Rightarrow> throw ''Unsupported function call type'' st1)"
| "executeNode env (BinaryExpression operator l r) ctx st =
     framed env st (\<lambda>st1.
       and_then (executeNode env l ctx st1) (\<lambda>left st2.
         and_then (executeNode env r ctx st2) (\<lambda>right st3.
           executeBinaryOperator (env_host env) operator left right st3)))"
| "executeNode env (LogicalExpression operator l r) ctx st =
     framed env st (\<lambda>st1.
       and_then (executeNode env l ctx st1) (\<lambda>left st2.
         if operator = ''&&'' then (if truthy left then executeNode env r ctx st2 else (Inr left, st2))
         else if operator = ''||'' then (if truthy left then (Inr left, st2) else executeNode env r ctx st2)
         else if operator = ''??'' then (if nullish left then executeNode env r ctx st2 else (Inr left, st2))
         else throw (''Unsupported logical operator: '' @ operator) st2))"
| "executeNode env (ConditionalExpression test consequent alternate) ctx st =
     framed env st (\<lambda>st1.
       and_then (executeNode env test ctx st1) (\<lambda>t st2.
         if truthy t then executeNode env consequent ctx st2 else executeNode env alternate ctx st2))"
| "executeNode env (UnaryExpression operator a) ctx st =
     framed env st (\<lambda>st1.
       and_then (executeNode env a ctx st1) (\<lambda>argument st2.
         executeUnaryOperator (env_host env) operator argument st2))"
| "executeNode env (ArrayExpression elements) ctx st =
     framed env st (\<lambda>st1.
       and_then (executeElements env elements ctx st1) (\<lambda>vals st2. (Inr (VArr vals), st2)))"
| "executeNode env (ObjectExpression props) ctx st =
     framed env st (\<lambda>st1. executeProperties env props ctx [] st1)"
| "executeNode env (Property k v c) ctx st =
     framed env st (\<lambda>st1. throw ''Unsupported node type: Property'' st1)"
| "executeNode env (ArrowFunctionExpression ps b) ctx st =
     framed env st (\<lambda>st1. throw ''Unsupported node type: ArrowFunctionExpression'' st1)"
| "executeNode env (TemplateLiteral es qs) ctx st =
     framed env st (\<lambda>st1. throw ''Unsupported node type: TemplateLiteral'' st1)"
| "executeNode env TemplateElement ctx st =
     framed env st (\<lambda>st1. throw ''Unsupported node type: TemplateElement'' st1)"
| "executeNode env (Other t cs) ctx st =
     framed env st (\<lambda>st1. throw (''Unsupported node type: '' @ t) st1)"
| "executeNodes env [] ctx st = (Inr [], st)"
| "executeNodes env (a # as) ctx st =
     and_then (executeNode env a ctx st) (\<lambda>v st1.
       and_then (executeNodes env as ctx st1) (\<lambda>vs st2. (Inr (v # vs), st2)))"
| "executeElements env [] ctx st = (Inr [], st)"
| "executeElements env (element # rest) ctx st =
     and_then (case element of None \<Rightarrow> (Inr VUndefined, st) | Some e \<Rightarrow> executeNode env e ctx st)
       (\<lambda>v st1. and_then (executeElements env rest ctx st1) (\<lambda>vs st2. (Inr (v # vs), st2)))"
| "executeProperties env [] ctx result st = (Inr (VObj result), st)"
| "executeProperties env (property # rest) ctx result st =
     (case property of
        Property key value computed \<Rightarrow>
          and_then
            (if computed
             then and_then (executeNode env key ctx st) (\<lambda>kv st1. (js_String (env_host env) kv, st1))
             else (case key of
                     Identifier kname \<Rightarrow> (Inr kname, st)
                   | Literal lv \<Rightarrow> (js_String (env_host env) lv, st)
                   | _ \<Rightarrow> throw ''Invalid property key'' st))
            (\<lambda>k st1. and_then (executeNode env value ctx st1)
               (\<lambda>v st2. executeProperties env rest ctx (obj_set result k v) st2))
      | _ \<Rightarrow> throw ''Unsupported object property type'' st)"
| "executeCallbackArgs env [] ctx st = (Inr [], st)"
| "executeCallbackArgs env (arg # rest) ctx st =
     and_then
       (case arg of
          ArrowFunctionExpression params body \<Rightarrow> (Inr (Inl arg), st)
        | _ \<Rightarrow> and_then (executeNode env arg ctx st) (\<lambda>v st1. (Inr (Inr v), st1)))
       (\<lambda>x st1. and_then (executeCallbackArgs env rest ctx st1) (\<lambda>xs st2. (Inr (x # xs), st2)))"

  by pat_completeness auto
termination
  by (relation "measure (\<lambda>x. case x of
      Inl (Inl (env, n, ctx, st)) \<Rightarrow> size n
    | Inl (Inr (env, ns, ctx, st)) \<Rightarrow> size_list size ns
    | Inr (Inl (env, es, ctx, st)) \<Rightarrow> size_list (size_option size) es
    | Inr (Inr (Inl (env, ps, ctx, acc, st))) \<Rightarrow> size_list size ps
    | Inr (Inr (Inr (env, ns, ctx, st))) \<Rightarrow> size_list size ns)")
    simp_all

text \<open>\<open>execute\<close>: on an empty stack, and the outcome made a result.\<close>

definition execute :: "ExecutorEnv \<Rightarrow> node \<Rightarrow> ExpressionContext \<Rightarrow> Engine \<Rightarrow> EvaluationResult \<times> Engine" where
  "execute env n ctx st =
     finish_execute env n ctx (executeNode env n ctx (st\<lparr> executionStack := 0 \<rparr>))"

text \<open>\<open>ASTCallbackEvaluator.executeCallback\<close> and \<open>ASTArrayOperations.reduce\<close> on an
  arrow function with the given parameters and body.\<close>

definition executeCallback ::
  "ExecutorEnv \<Rightarrow> node list \<Rightarrow> node \<Rightarrow> val list \<Rightarrow> ExpressionContext \<Rightarrow> Engine \<Rightarrow> (error + val) \<times> Engine" where
  "executeCallback env params body callbackArgs baseContext st =
     executeCallback_with (\<lambda>callbackContext st'. execute env body callbackContext st')
       (env_host env) (env_registry env) params body callbackArgs baseContext st"

definition reduce ::
  "ExecutorEnv \<Rightarrow> val list \<Rightarrow> node list \<Rightarrow> node \<Rightarrow> val \<Rightarrow> ExpressionContext \<Rightarrow> Engine \<Rightarrow> val \<times> Engine" where
  "reduce env array params body initialValue ctx st =
     reduce_from (\<lambda>callbackArgs st'. executeCallback env params body callbackArgs ctx st')
       array 0 array initialValue st"

section \<open>Orchestrator: evaluation\<close>

text \<open>
  \<open>Kangaroo\<close>. Its state is the template cache, the count kept beside it, and the
  state of its executor and validator. The type registry is the global one, which
  \<open>evaluate\<close> reads and never changes: it is an argument. The performance counters are
  left out.
\<close>

record ProcessedExpression =
  pe_original :: string
  pe_evaluated :: val
  pe_startIndex :: nat
  pe_endIndex :: nat

datatype TemplateResult = TemplateSuccess string "ProcessedExpression list" | TemplateFailure string

record Kangaroo =
  templateCache :: "(string \<times> TemplateResult) list"
  templateCacheSize :: nat
  engine :: Engine

definition new_Kangaroo :: Kangaroo where
  "new_Kangaroo = \<lparr> templateCache = [], templateCacheSize = 0, engine = new_Engine \<rparr>"

text \<open>\<open>evaluate\<close> answers with the result of an expression or with that of a template.\<close>

datatype Outcome = Direct EvaluationResult | Template TemplateResult

definition evaluateExpression ::
  "ExecutorEnv \<Rightarrow> EvaluatorOptions \<Rightarrow> string \<Rightarrow> ExpressionContext \<Rightarrow> Engine \<Rightarrow> EvaluationResult \<times> Engine" where
  "evaluateExpression env opts expression ctx st =
     (case parse (env_host env) expression of
        None \<Rightarrow> (Failure (''Invalid syntax: '' @ expression) ErrSyntax, st)
      | Some parsed \<Rightarrow>
          (if complexity parsed > maxComplexity opts
           then (Failure (''Expression too complex (''
                          @ h_num_to_string (env_host env) (Fin (complexity parsed)) @ '' > ''
                          @ h_num_to_string (env_host env) (Fin (maxComplexity opts)) @ '')'') ErrComplexity, st)
           else if of_nat (depth parsed) > maxDepth opts
           then (Failure (''Expression too deep ('' @ show_nat (depth parsed) @ '' > ''
                          @ h_num_to_string (env_host env) (Fin (maxDepth opts)) @ '')'') ErrComplexity, st)
           else if strictMode opts
           then (case validate (env_host env) (env_registry env) (securityValidator st) (ast parsed) (Some ctx) of
                   Inl (Error msg) \<Rightarrow> (Failure msg ErrRuntime, st)
                 | Inr (validation, sv') \<Rightarrow>
                     (if \<not> isValid validation
                      then (Failure (''Security violation: ''
                                     @ join_with ''; '' (map v_message (violations validation))) ErrSecurity,
                            st\<lparr> securityValidator := sv' \<rparr>)
                      else execute env (ast parsed) ctx (st\<lparr> securityValidator := sv' \<rparr>)))
           else execute env (ast parsed) ctx st))"

text \<open>The escape of a JSON text for a place inside a JSON string: each backslash is
  doubled, then each double quote gets a backslash.\<close>

definition escape_json :: "string \<Rightarrow> string" where
  "escape_json s =
     concat (map (\<lambda>c. if c = CHR 0x22 then backslash @ [c] else [c])
               (concat (map (\<lambda>c. if [c] = backslash then backslash @ backslash else [c]) s)))"

definition serializeValue :: "host \<Rightarrow> RegisteredType list \<Rightarrow> val \<Rightarrow> error + string" where
  "serializeValue h types v =
     (if nullish v then Inr []
      else (case detectType h types v of
              Some typeName \<Rightarrow>
                (if typeName = [] then js_String h v
                 else (case serialize h types v typeName of
                         Inl e \<Rightarrow> Inl e
                       | Inr serialized \<Rightarrow>
                           (if (case find (\<lambda>t. rt_name t = typeName) types of
                                  Some t \<Rightarrow> cfg_serialization (rt_config t) = Json
                                | None \<Rightarrow> False)
                            then (case serialized of
                                    VStr js \<Rightarrow> Inr (escape_json js)
                                  | _ \<Rightarrow> Inl (Error ''Cannot read properties of undefined (reading replace)''))
                            else js_String h serialized)))
            | None \<Rightarrow> js_String h v))"

text \<open>The default order of \<open>sort\<close> on strings: by code units.\<close>

fun code_units_le :: "string \<Rightarrow> string \<Rightarrow> bool" where
  "code_units_le [] t = True"
| "code_units_le (c # cs) [] = False"
| "code_units_le (c # cs) (d # ds) =
     (code_unit c < code_unit d \<or> (code_unit c = code_unit d \<and> code_units_le cs ds))"

fun insert_sorted :: "string \<Rightarrow> string list \<Rightarrow> string list" where
  "insert_sorted k [] = [k]"
| "insert_sorted k (x # xs) = (if code_units_le k x then k # x # xs else x # insert_sorted k xs)"

definition sort_strings :: "string list \<Rightarrow> string list" where
  "sort_strings ks = foldr insert_sorted ks []"

definition getTemplateCacheKey :: "string \<Rightarrow> ExpressionContext \<Rightarrow> string" where
  "getTemplateCacheKey template ctx = template @ ''|'' @ join_with '','' (sort_strings (map fst ctx))"

definition maxTemplateCacheSize :: nat where
  "maxTemplateCacheSize = 100"

definition setTemplateCached :: "Kangaroo \<Rightarrow> string \<Rightarrow> TemplateResult \<Rightarrow> Kangaroo" where
  "setTemplateCached k key v =
     (let k1 =
            (if templateCacheSize k \<ge> maxTemplateCacheSize
             then (case templateCache k of
                     [] \<Rightarrow> k
                   | (firstKey, x) # rest \<Rightarrow>
                       (if firstKey \<noteq> []
                        then k\<lparr> templateCache := AList.delete firstKey (templateCache k),
                                templateCacheSize := templateCacheSize k - 1 \<rparr>
                        else k))
             else k)
      in k1\<lparr> templateCache := AList.update key v (templateCache k1),
              templateCacheSize := templateCacheSize k1 + 1 \<rparr>)"

text \<open>
  The replacer of \<open>evaluateTemplate\<close>: it evaluates the expression of a hole, records
  it, throws the error of a failed evaluation, and serializes the value otherwise. Its
  state is the engine and the records so far.
\<close>

definition template_replacer ::
  "ExecutorEnv \<Rightarrow> EvaluatorOptions \<Rightarrow> RegisteredType list \<Rightarrow> ExpressionContext
     \<Rightarrow> string \<Rightarrow> TemplateMatch \<Rightarrow> Engine \<times> ProcessedExpression list
     \<Rightarrow> (error + string) \<times> (Engine \<times> ProcessedExpression list)" where
  "template_replacer env opts types ctx expression m st =
     (case evaluateExpression env opts expression ctx (fst st) of
        (Failure msg et, eng) \<Rightarrow>
          (Inl (Error msg),
           (eng, snd st @ [\<lparr> pe_original = expression, pe_evaluated = VStr msg,
                              pe_startIndex = startIndex m, pe_endIndex = endIndex m \<rparr>]))
      | (Success v, eng) \<Rightarrow>
          ((if nullish v then Inr [] else serializeValue (env_host env) types v),
           (eng, snd st @ [\<lparr> pe_original = expression, pe_evaluated = v,
                              pe_startIndex = startIndex m, pe_endIndex = endIndex m \<rparr>])))"

definition evaluateTemplate ::
  "ExecutorEnv \<Rightarrow> EvaluatorOptions \<Rightarrow> RegisteredType list \<Rightarrow> string \<Rightarrow> ExpressionContext \<Rightarrow> Kangaroo
     \<Rightarrow> TemplateResult \<times> Kangaroo" where
  "evaluateTemplate env opts types template ctx k =
     (case (if enableCaching opts then map_of (templateCache k) (getTemplateCacheKey template ctx) else None) of
        Some cached \<Rightarrow> (cached, k)
      | None \<Rightarrow>
          (case replaceTemplateExpressions template (template_replacer env opts types ctx) (engine k, []) of
             (Inr result, (eng, processedExpressions)) \<Rightarrow>
               (TemplateSuccess result processedExpressions,
                (if enableCaching opts
                 then setTemplateCached (k\<lparr> engine := eng \<rparr>) (getTemplateCacheKey template ctx)
                        (TemplateSuccess result processedExpressions)
                 else k\<lparr> engine := eng \<rparr>))
           | (Inl (Error msg), (eng, processedExpressions)) \<Rightarrow>
               (TemplateFailure msg, k\<lparr> engine := eng \<rparr>)))"

definition evaluate ::
  "ExecutorEnv \<Rightarrow> EvaluatorOptions \<Rightarrow> RegisteredType list \<Rightarrow> string \<Rightarrow> ExpressionContext \<Rightarrow> Kangaroo
     \<Rightarrow> Outcome \<times> Kangaroo" where
  "evaluate env opts types expression ctx k =
     (if expression = [] then (Direct (Success (VStr expression)), k)
      else if trim expression = [] then (Direct (Success (VStr [])), k)
      else if hasTemplateExpressions (trim expression)
      then (case evaluateTemplate env opts types (trim expression) ctx k of
              (r, k') \<Rightarrow> (Template r, k'))
      else (case evaluateExpression env opts (trim expression) ctx (engine k) of
              (r, eng) \<Rightarrow> (Direct r, k\<lparr> engine := eng \<rparr>)))"

text \<open>The environment \<open>Kangaroo\<close> builds its executor with: no error handler, the
  default stack depth, the array operations set.\<close>

definition kangaroo_env :: "host \<Rightarrow> FunctionRegistry \<Rightarrow> ExecutorEnv" where
  "kangaroo_env h reg =
     \<lparr> env_host = h, env_registry = reg, env_maxStackDepth = 50, env_errorHandler = None,
       env_arrayOperations = True \<rparr>"

section \<open>Example inputs\<close>

text \<open>\<open>[1, 2, 3].reduce((...names) => s + x, 0)\<close>, with the given parameter names.\<close>

definition sum_reducer :: "string list \<Rightarrow> node" where
  "sum_reducer names =
     CallExpression
       (MemberExpression
          (ArrayExpression [Some (Literal (VNum (Fin 1))), Some (Literal (VNum (Fin 2))), Some (Literal (VNum (Fin 3)))])
          (Identifier ''reduce'') False)
       [ArrowFunctionExpression (map Identifier names)
          (BinaryExpression ''+'' (Identifier ''s'') (Identifier ''x'')),
        Literal (VNum (Fin 0))]"

text \<open>\<open>a.length + b.length\<close>.\<close>

definition length_sum :: node where
  "length_sum =
     BinaryExpression ''+''
       (MemberExpression (Identifier ''a'') (Identifier ''length'') False)
       (MemberExpression (Identifier ''b'') (Identifier ''length'') False)"

text \<open>\<open>a.b.c.d.e.f.g.h.i.j.k.l\<close>: a chain of eleven member accesses.\<close>

definition deep_chain :: node where
  "deep_chain =
     foldl (\<lambda>ob p. MemberExpression ob (Identifier p) False) (Identifier ''a'')
       [''b'', ''c'', ''d'', ''e'', ''f'', ''g'', ''h'', ''i'', ''j'', ''k'', ''l'']"

section \<open>Properties of the type registry\<close>



lemma serialize_json:
  assumes "find (\<lambda>t. rt_name t = n) types = Some rt"
    and "cfg_serialization (rt_config rt) = Json"
    and "h_JSON_stringify h v = Inr r"
  shows "serialize h types v n = Inr r"
  using assms by (simp add: serialize_def)

lemma serialize_string:
  assumes "find (\<lambda>t. rt_name t = n) types = Some rt"
    and "cfg_serialization (rt_config rt) = AsString"
    and "js_String h v = Inr s"
  shows "serialize h types v n = Inr (VStr s)"
  using assms by (simp add: serialize_def)

lemma serialize_object_is_string:
  assumes "find (\<lambda>t. rt_name t = n) types = Some rt"
    and "cfg_serialization (rt_config rt) = AsObject"
    and "js_String h v = Inr s"
  shows "serialize h types v n = Inr (VStr s)"
  using assms by (simp add: serialize_def)

lemma serialize_fallback:
  assumes "find (\<lambda>t. rt_name t = n) types = Some rt"
    and "cfg_serialization (rt_config rt) = Json"
    and "h_JSON_stringify h v = Inl e"
  shows "serialize h types v n = map_sum id VStr (js_String h v)"
  using assms by (simp add: serialize_def)

lemma serialize_raises_with_String:
  assumes "find (\<lambda>t. rt_name t = n) types = Some rt"
    and "cfg_serialization (rt_config rt) \<noteq> Json"
    and "js_String h v = Inl e"
  shows "serialize h types v n = Inl e"
  using assms by (cases "cfg_serialization (rt_config rt)") (simp_all add: serialize_def)

text \<open>
  C3. \<open>serialize(value, name)\<close> is to return the value itself for the strategy
  \<open>'object'\<close>. The test \<open>should correctly detect and serialize with object strategy\<close>
  registers \<open>TestType\<close> with that strategy and serializes \<open>{id: 'test_123', value: 42}\<close>,
  expecting the same object back. The code takes the \<open>default\<close> case of its \<open>switch\<close> and
  returns the string coercion \<open>[object Object]\<close>.
\<close>

theorem serialize_object_strategy_returns_string:
  "serialize plain_host
     [\<lparr> rt_name = ''TestType'',
        rt_config = \<lparr> cfg_schema = \<lparr> schema_properties = [(''id'', ''string''), (''value'', ''number'')],
                                     schema_required = [''id''] \<rparr>,
                      cfg_serialization = AsObject \<rparr> \<rparr>]
     (VObj [(''id'', VStr ''test_123''), (''value'', VNum (Fin 42))]) ''TestType''
   = Inr (VStr ''[object Object]'')
   \<and> VStr ''[object Object]'' \<noteq> VObj [(''id'', VStr ''test_123''), (''value'', VNum (Fin 42))]"
  by (simp add: serialize_def plain_host_def js_String_def)



section \<open>Properties of the security validator\<close>

lemma blocked_names_plain:
  "List.member blockedIdentifiers name \<Longrightarrow> name \<noteq> [] \<and> trim name = name \<and> \<not> hasTemplateExpressions name"
  unfolding blockedIdentifiers_def
  by (auto simp: trim_def is_space_def code_unit_def hole_at_def)

lemma validateNode_Identifier:
  "validateNode reg rules ctx (Identifier name) =
     validateIdentifier name @ applyCustomRules rules ctx (Identifier name)"
  apply (subst validateNode.simps)
  apply (simp add: supportedNodeTypes_def applyBuiltInValidation_def)
  done

lemma calc_Identifier: "calculateComplexity (Identifier name) = 1/2" "calculateDepth (Identifier name) = 0"
  by (subst calculateComplexity.simps, simp add: complexity_weight_def)
     (subst calculateDepth.simps, simp)

text \<open>\<open>validate\<close> on a miss and on a hit of its cache, and what \<open>setCached\<close> leaves
  under the key.\<close>

lemma validate_on_miss:
  assumes "validator_getCacheKey h n ctx = Inr key"
    and "map_of (validationCache sv) key = None"
  shows "validate h reg sv n ctx
           = Inr (\<lparr> isValid = (validateNode reg (customRules sv) ctx n = []),
                    violations = validateNode reg (customRules sv) ctx n,
                    riskLevel = Some (assessRiskLevel (validateNode reg (customRules sv) ctx n)) \<rparr>,
                  validator_setCached sv key
                    \<lparr> isValid = (validateNode reg (customRules sv) ctx n = []),
                      violations = validateNode reg (customRules sv) ctx n,
                      riskLevel = Some (assessRiskLevel (validateNode reg (customRules sv) ctx n)) \<rparr>)"
  using assms by (simp add: validate_def Let_def)

lemma validate_on_hit:
  assumes "validator_getCacheKey h n ctx = Inr key"
    and "map_of (validationCache sv) key = Some cached"
  shows "validate h reg sv n ctx = Inr (cached, sv)"
  using assms by (simp add: validate_def)

lemma map_of_validator_setCached:
  "map_of (validationCache (validator_setCached sv key v)) key = Some v"
  by (simp add: validator_setCached_def Let_def update_conv' split: list.splits)

text \<open>\<open>Kangaroo.validate\<close> on one expression without holes that parses and is within
  the caps: the violations are those of the validator.\<close>

lemma Kangaroo_validate_single:
  assumes "expression \<noteq> []" and "trim expression = expression"
    and "\<not> hasTemplateExpressions expression"
    and "parse h expression = Some parsed"
    and "\<not> complexity parsed > maxComplexity opts"
    and "\<not> of_nat (depth parsed) > maxDepth opts"
    and "validate h reg sv (ast parsed) None = Inr (validation, sv')"
  shows "Kangaroo_validate h reg opts sv expression
           = (\<lparr> isValid = (violations validation = []), violations = violations validation,
                 riskLevel = Some (assessOverallRisk (violations validation)) \<rparr>, sv')"
  using assms by (simp add: Kangaroo_validate_def)

text \<open>
  A name of the identifier denylist is refused with a violation of type
  \<open>blocked_identifier\<close>, of severity error, when the parser library lifts it to an
  \<open>Identifier\<close> node and the validation cache holds no entry under the key of that node,
  as on a new validator.
\<close>

lemma blocked_identifier_rejected_on_miss:
  assumes "List.member blockedIdentifiers name"
    and "h_parse h (''('' @ name @ '')'') = Some (Identifier name)"
    and "validator_getCacheKey h (Identifier name) None = Inr key"
    and "map_of (validationCache sv) key = None"
  shows "\<not> isValid (fst (Kangaroo_validate h reg opts sv name))
       \<and> list_ex (\<lambda>v. v_type v = blocked_identifier \<and> v_severity v = Some SevError)
           (violations (fst (Kangaroo_validate h reg opts sv name)))"
proof -
  from blocked_names_plain [OF assms(1)]
  have n: "name \<noteq> []" "trim name = name" "\<not> hasTemplateExpressions name" by simp_all
  have p: "parse h name = Some \<lparr> ast = Identifier name, complexity = 1/2, depth = 0 \<rparr>"
    using n assms(2) by (simp add: parse_def calc_Identifier)
  have w: "validateNode reg (customRules sv) None (Identifier name)
             = violation blocked_identifier
                 (''Identifier '' @ [CHR 0x27] @ name @ [CHR 0x27] @ '' is blocked for security reasons'') SevError
               # applyCustomRules (customRules sv) None (Identifier name)"
    using assms(1) by (simp add: validateNode_Identifier validateIdentifier_def)
  show ?thesis
    using n p w assms(3,4)
    by (simp add: Kangaroo_validate_def validate_def Let_def violation_def split: prod.splits sum.splits error.splits)
qed

text \<open>A text the parser library refuses, as it does a reserved word, is answered with
  the one violation of \<open>Kangaroo.validate\<close> for a syntax error, of type
  \<open>blocked_pattern\<close>. The name \<open>import\<close> of the denylist is such a text.\<close>

lemma refused_text_is_invalid_syntax:
  assumes "expression \<noteq> []" and "trim expression = expression"
    and "\<not> hasTemplateExpressions expression"
    and "h_parse h (''('' @ expression @ '')'') = None"
  shows "fst (Kangaroo_validate h reg opts sv expression)
         = \<lparr> isValid = False,
             violations = [plain_violation blocked_pattern (''Invalid syntax in expression: '' @ expression)],
             riskLevel = Some RiskLow \<rparr>"
  using assms
  by (simp add: Kangaroo_validate_def parse_def assessOverallRisk_def plain_violation_def)

lemma import_is_invalid_syntax:
  "List.member blockedIdentifiers ''import''"
  "fst (Kangaroo_validate plain_host reg opts sv ''import'')
     = \<lparr> isValid = False,
         violations = [plain_violation blocked_pattern ''Invalid syntax in expression: import''],
         riskLevel = Some RiskLow \<rparr>"
proof -
  show "List.member blockedIdentifiers ''import''"
    by (simp add: blockedIdentifiers_def)
  then have n: "''import'' \<noteq> []" "trim ''import'' = ''import''" "\<not> hasTemplateExpressions ''import''"
    using blocked_names_plain [of "''import''"] by simp_all
  have p: "h_parse plain_host (''('' @ ''import'' @ '')'') = None"
    by (simp add: plain_host_def plain_parse_def plain_parse_dotted_def plain_parse_name_def
        is_name_def is_digit_def is_letter_def code_unit_def reserved_words_def)
  from refused_text_is_invalid_syntax [OF n p]
  show "fst (Kangaroo_validate plain_host reg opts sv ''import'')
     = \<lparr> isValid = False,
         violations = [plain_violation blocked_pattern ''Invalid syntax in expression: import''],
         riskLevel = Some RiskLow \<rparr>"
    by simp
qed

text \<open>
  The key of the validation cache. The JSON text of a node starts with its type and
  its position, which fill the first 100 code units when the type has six letters or
  more, as \<open>Identifier\<close> and \<open>MemberExpression\<close> have: the key of such a node is fixed by
  its type, its start and its end, whatever else the node holds.
\<close>

lemma show_small: "n < 10 \<Longrightarrow> show_nat n = [digit_char n]"
  by (subst show_nat.simps) simp

lemma show_nat_not_empty: "1 \<le> length (show_nat n)"
  by (subst show_nat.simps) simp

lemma json_escape_not_empty: "1 \<le> length (json_escape c)"
  by (simp add: json_escape_def)

lemma json_escaped_length: "length s \<le> length (concat (map json_escape s))"
proof (induction s)
  case Nil
  show ?case by simp
next
  case (Cons c cs)
  then show ?case using json_escape_not_empty [of c] by simp
qed

lemma node_header_length:
  assumes "6 \<le> length t"
  shows "100 \<le> length (node_header t s e)"
  using assms json_escaped_length [of t] show_nat_not_empty [of s] show_nat_not_empty [of e]
  by (simp add: node_header_def json_quote_def)

lemma key_of_header:
  assumes "6 \<le> length t"
  shows "take 100 (node_header t s e @ rest) = take 100 (node_header t s e)"
  using node_header_length [OF assms, of s e] by simp

lemma key_of_Identifier:
  "validator_getCacheKey plain_host (Identifier name) None
     = Inr (''Identifier:'' @ take 100 (node_header ''Identifier'' 1 (1 + length name)) @ ''|'')"
  by (simp add: validator_getCacheKey_def plain_host_def plain_node_json_def key_of_header
      del: take_append)

lemma key_of_eval:
  "validator_getCacheKey plain_host (Identifier ''eval'') None
     = Inr (''Identifier:{\"type\":\"Identifier\",\"start\":1,\"end\":5,''
            @ ''\"loc\":{\"start\":{\"line\":1,\"column\":1},\"end\":{\"line\":1,\"column\"|'')"
  by (simp add: key_of_Identifier node_header_def json_quote_def json_escape_def code_unit_def
      show_small digit_char_def)

text \<open>Two names of one length have one key.\<close>

lemma names_of_one_length_share_a_key:
  "length a = length b \<Longrightarrow>
   validator_getCacheKey plain_host (Identifier a) None
     = validator_getCacheKey plain_host (Identifier b) None"
  by (simp add: key_of_Identifier)

text \<open>The two names of the example: both parse to an \<open>Identifier\<close>, and the walk of
  the first finds nothing.\<close>

lemma parse_abcd:
  "parse plain_host ''abcd'' = Some \<lparr> ast = Identifier ''abcd'', complexity = 1/2, depth = 0 \<rparr>"
  by (simp add: parse_def trim_def is_space_def calc_Identifier plain_host_def plain_parse_def
      plain_parse_dotted_def plain_parse_name_def is_name_def is_digit_def is_letter_def code_unit_def
      reserved_words_def)

lemma parse_eval:
  "parse plain_host ''eval'' = Some \<lparr> ast = Identifier ''eval'', complexity = 1/2, depth = 0 \<rparr>"
  by (simp add: parse_def trim_def is_space_def calc_Identifier plain_host_def plain_parse_def
      plain_parse_dotted_def plain_parse_name_def is_name_def is_digit_def is_letter_def code_unit_def
      reserved_words_def)

lemma walk_abcd: "validateNode reg [] None (Identifier ''abcd'') = []"
  by (simp add: validateNode_Identifier validateIdentifier_def blockedIdentifiers_def
      applyCustomRules_def)

lemma plain_names:
  "''abcd'' \<noteq> [] \<and> trim ''abcd'' = ''abcd'' \<and> \<not> hasTemplateExpressions ''abcd''"
  "''eval'' \<noteq> [] \<and> trim ''eval'' = ''eval'' \<and> \<not> hasTemplateExpressions ''eval''"
  by (simp_all add: trim_def is_space_def code_unit_def hole_at_def)

text \<open>
  C5. For every name of the identifier denylist, \<open>validate\<close> on the bare name is to
  answer \<open>isValid = false\<close> with a violation of type \<open>blocked_identifier\<close>. A new
  instance does so for \<open>eval\<close>. But the validator answers from its cache first, and the
  key of the cache is the type of the node and the first 100 code units of its JSON
  text, which end inside the position of the node, before its name
  (\<open>key_of_eval\<close>): two names of one length have one key
  (\<open>names_of_one_length_share_a_key\<close>). Once \<open>validate('abcd')\<close> has stored its result,
  \<open>validate('eval')\<close> on the same instance returns it: \<open>isValid = true\<close>, with no
  violation.
\<close>

theorem cached_validation_accepts_eval:
  "\<not> isValid (fst (Kangaroo_validate plain_host reg default_options new_SecurityValidator ''eval''))
   \<and> list_ex (\<lambda>v. v_type v = blocked_identifier \<and> v_severity v = Some SevError)
        (violations (fst (Kangaroo_validate plain_host reg default_options new_SecurityValidator ''eval'')))
   \<and> fst (Kangaroo_validate plain_host reg default_options
             (snd (Kangaroo_validate plain_host reg default_options new_SecurityValidator ''abcd''))
             ''eval'')
       = \<lparr> isValid = True, violations = [], riskLevel = Some RiskLow \<rparr>"
proof -
  let ?new = new_SecurityValidator
  let ?ok = "\<lparr> isValid = True, violations = [], riskLevel = Some RiskLow \<rparr>"
  obtain key where k: "validator_getCacheKey plain_host (Identifier ''abcd'') None = Inr key"
    and k': "validator_getCacheKey plain_host (Identifier ''eval'') None = Inr key"
    by (simp add: key_of_Identifier)
  have empty: "map_of (validationCache ?new) key = None"
    by (simp add: new_SecurityValidator_def)
  have "List.member blockedIdentifiers ''eval''"
    by (simp add: blockedIdentifiers_def)
  moreover have "h_parse plain_host (''('' @ ''eval'' @ '')'') = Some (Identifier ''eval'')"
    by (simp add: plain_host_def plain_parse_def plain_parse_dotted_def plain_parse_name_def
        is_name_def is_digit_def is_letter_def code_unit_def reserved_words_def)
  ultimately have fresh:
    "\<not> isValid (fst (Kangaroo_validate plain_host reg default_options ?new ''eval''))
     \<and> list_ex (\<lambda>v. v_type v = blocked_identifier \<and> v_severity v = Some SevError)
          (violations (fst (Kangaroo_validate plain_host reg default_options ?new ''eval'')))"
    using k' empty by (rule blocked_identifier_rejected_on_miss)
  have "validate plain_host reg ?new (Identifier ''abcd'') None
          = Inr (?ok, validator_setCached ?new key ?ok)"
    using validate_on_miss [OF k empty, of reg]
    by (simp add: new_SecurityValidator_def walk_abcd assessRiskLevel_def)
  then have first: "snd (Kangaroo_validate plain_host reg default_options ?new ''abcd'')
                      = validator_setCached ?new key ?ok"
    using Kangaroo_validate_single [of "''abcd''" plain_host _ default_options reg ?new] plain_names(1) parse_abcd
    by (simp add: default_options_def)
  have "validate plain_host reg (validator_setCached ?new key ?ok) (Identifier ''eval'') None
          = Inr (?ok, validator_setCached ?new key ?ok)"
    using k' map_of_validator_setCached by (rule validate_on_hit)
  then have second: "fst (Kangaroo_validate plain_host reg default_options
                            (validator_setCached ?new key ?ok) ''eval'') = ?ok"
    using Kangaroo_validate_single [of "''eval''" plain_host _ default_options reg] plain_names(2) parse_eval
    by (simp add: default_options_def assessOverallRisk_def)
  from fresh first second show ?thesis by simp
qed

section \<open>Evaluating on concrete inputs\<close>

lemmas plain_defs = plain_host_def plain_parse_def plain_parse_dotted_def plain_parse_name_def
  is_name_def is_digit_def is_letter_def code_unit_def reserved_words_def object_prototype_def
  plain_node_json_def plain_JSON_stringify_def json_quote_def json_escape_def
  plain_binary_def plain_unary_def plain_arith_def safe_integer_def

lemmas exec_defs = kangaroo_env_def execute_def finish_execute_def framed_def and_then_def throw_def
  effectiveMaxStackDepth_def executeIdentifier_def has_in_def get_property_def safePropertyAccess_def
  js_String_def executor_setCached_def maxPropertyCacheSize_def runtimeBlockedProps_def
  executeBinaryOperator_def supportedBinaryOperators_def new_Engine_def new_SecurityValidator_def
  array_index_def quoted_def Let_def categorizeError_def

lemmas cb_defs = executeCallbackMethod_def executeCallback_with_def callback_validateArrowFunction_def
  callbackMethods_def present_def valid_param_def valid_identifier_name_def bind_params.simps
  obj_set_def index_key_def before_index_def index_val_def validate_def validator_getCacheKey_def validator_setCached_def
  maxValidationCacheSize_def assessRiskLevel_def

lemma validateNode_cases:
  "validateNode reg rules ctx (Literal lv) =
     validateLiteral lv @ applyCustomRules rules ctx (Literal lv)"
  "validateNode reg rules ctx (Identifier name) =
     validateIdentifier name @ applyCustomRules rules ctx (Identifier name)"
  "validateNode reg rules ctx (MemberExpression ob p cm) =
     validateMemberExpression (MemberExpression ob p cm)
     @ applyCustomRules rules ctx (MemberExpression ob p cm)
     @ validateNode reg rules ctx ob @ validateNode reg rules ctx p"
  "validateNode reg rules ctx (CallExpression f as) =
     validateCallExpression reg f as @ applyCustomRules rules ctx (CallExpression f as)
     @ validateNode reg rules ctx f @ concat (map (validateNode reg rules ctx) as)"
  "validateNode reg rules ctx (BinaryExpression op l r) =
     validateBinaryExpression op @ applyCustomRules rules ctx (BinaryExpression op l r)
     @ validateNode reg rules ctx l @ validateNode reg rules ctx r"
  "validateNode reg rules ctx (LogicalExpression op l r) =
     applyCustomRules rules ctx (LogicalExpression op l r)
     @ validateNode reg rules ctx l @ validateNode reg rules ctx r"
  "validateNode reg rules ctx (ConditionalExpression t cq alt) =
     applyCustomRules rules ctx (ConditionalExpression t cq alt)
     @ validateNode reg rules ctx t @ validateNode reg rules ctx cq @ validateNode reg rules ctx alt"
  "validateNode reg rules ctx (UnaryExpression op a) =
     validateUnaryExpression op @ applyCustomRules rules ctx (UnaryExpression op a)
     @ validateNode reg rules ctx a"
  "validateNode reg rules ctx (ArrayExpression es) =
     applyCustomRules rules ctx (ArrayExpression es)
     @ concat (map (validateNode reg rules ctx) (children (ArrayExpression es)))"
  "validateNode reg rules ctx (ObjectExpression ps) =
     validateObjectExpression ps @ applyCustomRules rules ctx (ObjectExpression ps)
     @ concat (map (validateNode reg rules ctx) ps)"
  "validateNode reg rules ctx (Property k pv pc) =
     applyCustomRules rules ctx (Property k pv pc)
     @ validateNode reg rules ctx k @ validateNode reg rules ctx pv"
  "validateNode reg rules ctx (ArrowFunctionExpression params b) =
     validateArrowFunction params @ applyCustomRules rules ctx (ArrowFunctionExpression params b)
     @ concat (map (validateNode reg rules ctx) params) @ validateNode reg rules ctx b"
  by (subst validateNode.simps, simp add: supportedNodeTypes_def applyBuiltInValidation_def)+

section \<open>Properties of the executor\<close>

lemma executeIdentifier_own:
  "map_of ctx name = Some v \<Longrightarrow> executeIdentifier h name ctx = v"
  by (simp add: executeIdentifier_def has_in_def get_property_def)

lemma executeIdentifier_absent:
  assumes "map_of ctx name = None" and "h_proto h (VObj ctx) name = None"
  shows "executeIdentifier h name ctx =
           (if name = ''undefined'' then VUndefined
            else if name = ''null'' then VNull
            else if name = ''true'' then VBool True
            else if name = ''false'' then VBool False
            else if name = ''Infinity'' then VNum PosInf
            else if name = ''NaN'' then VNum NaN
            else VUndefined)"
  using assms by (simp add: executeIdentifier_def has_in_def)

lemma executeIdentifier_inherited:
  assumes "map_of ctx name = None" and "h_proto h (VObj ctx) name = Some v"
  shows "executeIdentifier h name ctx = v"
  using assms by (simp add: executeIdentifier_def has_in_def get_property_def)

text \<open>
  C10. An identifier the context has as an own key evaluates to the context's value,
  also when it is one of the six built-in names (\<open>executeIdentifier_own\<close>); a name the
  context does not have resolves to its scalar meaning, or to undefined
  (\<open>executeIdentifier_absent\<close>), provided the context does not inherit it. The context is
  asked with \<open>in\<close>, so a name it inherits from \<open>Object.prototype\<close> is found there: with
  the empty context \<open>{}\<close>, the identifier \<open>toString\<close>, absent from the context, evaluates
  to the host's function and not to undefined.
\<close>

theorem identifier_inherited_from_prototype:
  "executeIdentifier plain_host ''toString'' [] = VHostFun ''toString''
   \<and> fst (execute (kangaroo_env plain_host reg) (Identifier ''toString'') [] new_Engine)
       = Success (VHostFun ''toString'')
   \<and> VHostFun ''toString'' \<noteq> VUndefined"
  by (simp add: exec_defs plain_defs)

lemma runtime_denylist_blocks:
  assumes "List.member runtimeBlockedProps name"
    and "typeof object = ''object''" and "object \<noteq> VNull"
  shows "safePropertyAccess h object (VStr name) st
           = (Inl (Error (''Property '' @ quoted name @ '' is blocked for security reasons'')), st)"
  using assms by (simp add: safePropertyAccess_def js_String_def throw_def)

lemma runtime_denylist_blocks_on_miss:
  assumes "List.member runtimeBlockedProps name"
    and "map_of (propertyCache st) (typeof object @ '':'' @ name) = None"
  shows "safePropertyAccess h object (VStr name) st
           = (Inl (Error (''Property '' @ quoted name @ '' is blocked for security reasons'')), st)"
  using assms by (simp add: safePropertyAccess_def js_String_def throw_def)



lemma blocked_message_is_security:
  assumes "List.member runtimeBlockedProps name"
  shows "categorizeError (''Property '' @ quoted name @ '' is blocked for security reasons'') = ErrSecurity"
proof -
  from assms have "name = ''constructor'' \<or> name = ''prototype'' \<or> name = ''__proto__''
      \<or> name = ''__defineGetter__'' \<or> name = ''__defineSetter__'' \<or> name = ''__lookupGetter__''
      \<or> name = ''__lookupSetter__'' \<or> name = ''valueOf'' \<or> name = ''toString''"
    by (simp add: runtimeBlockedProps_def)
  then show ?thesis
    by (elim disjE) (simp_all add: categorizeError_def quoted_def fold_case_def code_unit_def)
qed

text \<open>
  C2. Every name of the property denylist is to raise a security error when it is
  accessed on a receiver that is not nullish, whatever the validator did.
  \<open>safePropertyAccess\<close> has a list of its own, with the first nine names
  (\<open>runtime_denylist_blocks\<close>); \<open>hasOwnProperty\<close>, which the validator's list has, is not
  on it. The expression \<open>item[key]\<close>, which the validator accepts, with
  \<open>key = 'hasOwnProperty'\<close> evaluates to the host's function.
\<close>

theorem runtime_denylist_misses_hasOwnProperty:
  "fst (execute (kangaroo_env plain_host reg)
          (MemberExpression (Identifier ''item'') (Identifier ''key'') True)
          [(''item'', VObj []), (''key'', VStr ''hasOwnProperty'')] new_Engine)
     = Success (VHostFun ''hasOwnProperty'')
   \<and> List.member blockedProperties ''hasOwnProperty''
   \<and> validateNode reg [] None (MemberExpression (Identifier ''item'') (Identifier ''key'') True) = []"
  apply (intro conjI)
    apply (simp add: exec_defs plain_defs)
   apply (simp add: blockedProperties_def)
  apply (simp add: validateNode_cases validateMemberExpression_def validateIdentifier_def
      blockedIdentifiers_def applyCustomRules_def)
  done

lemma safePropertyAccess_hasOwnProperty:
  "fst (safePropertyAccess plain_host (VObj []) (VStr ''hasOwnProperty'') new_Engine)
     = Inr (VHostFun ''hasOwnProperty'')"
  by (simp add: exec_defs plain_defs)

lemma callback_rejects_more_than_three:
  "length params > 3 \<Longrightarrow>
   executeCallback env params body callbackArgs ctx st
     = (Inl (Error ''Invalid or unsafe arrow function''), st)"
  by (simp add: executeCallback_def executeCallback_with_def callback_validateArrowFunction_def throw_def)

lemma reduce_from_rejected:
  "(\<And>callbackArgs s. cb callbackArgs s = (Inl e, s)) \<Longrightarrow>
   reduce_from cb array i xs accumulator st = (accumulator, st)"
  by (induction xs arbitrary: i) simp_all

lemma reduce_more_than_three_params:
  "length params > 3 \<Longrightarrow> reduce env array params body initialValue ctx st = (initialValue, st)"
  unfolding reduce_def
  by (rule reduce_from_rejected) (simp add: callback_rejects_more_than_three)

text \<open>
  C4. A reducer that declares the four parameters (accumulator, element, index, array)
  is to have them bound by position at each element. The callback evaluator refuses an
  arrow function with more than three parameters, so the callback throws at each
  element, \<open>reduce\<close> keeps the accumulator, and the call returns the initial value
  (\<open>reduce_more_than_three_params\<close>): \<open>[1, 2, 3].reduce((s, x, i, arr) => s + x, 0)\<close> is
  0. The security validator accepts the expression (\<open>four_parameters_pass_validation\<close>),
  and with two parameters the sum is 6 (\<open>reduce_with_two_parameters\<close>).
\<close>

theorem reduce_with_four_parameters:
  "fst (execute (kangaroo_env plain_host reg) (sum_reducer [''s'', ''x'', ''i'', ''arr'']) [] new_Engine)
     = Success (VNum (Fin 0))"
  by (simp add: sum_reducer_def exec_defs plain_defs cb_defs)

lemma reduce_with_two_parameters:
  "fst (execute (kangaroo_env plain_host reg) (sum_reducer [''s'', ''x'']) [] new_Engine)
     = Success (VNum (Fin 6))"
  by (simp add: sum_reducer_def exec_defs plain_defs cb_defs validateNode_cases
      validateBinaryExpression_def blockedOperators_def validateIdentifier_def blockedIdentifiers_def
      applyCustomRules_def)

lemma four_parameters_pass_validation:
  "validateNode reg [] ctx (sum_reducer [''s'', ''x'', ''i'', ''arr'']) = []"
  by (simp add: sum_reducer_def validateNode_cases validateBinaryExpression_def blockedOperators_def
      validateIdentifier_def blockedIdentifiers_def applyCustomRules_def validateCallExpression_def
      validateCallbackMethodCall_def callbackMethods_def present_def validateArrowFunction_def
      validateLiteral_def validateMemberExpression_def blockedProperties_def)

lemma property_cache_hit:
  assumes "typeof receiver \<noteq> ''object''"
    and "js_String h property = Inr k"
    and "map_of (propertyCache st) (typeof receiver @ '':'' @ k) = Some c"
    and "c \<noteq> VUndefined"
  shows "safePropertyAccess h receiver property st = (Inr c, st)"
  using assms by (simp add: safePropertyAccess_def)

lemma map_of_setCached:
  "map_of (propertyCache (executor_setCached st key v)) key = Some v"
  by (simp add: executor_setCached_def Let_def update_conv' split: list.splits)

lemma length_is_cached:
  assumes "map_of (propertyCache st) (''string:length'') = None"
  shows "safePropertyAccess h (VStr s) (VStr ''length'') st
           = (Inr (VNum (Fin (of_nat (length s)))),
              executor_setCached st ''string:length'' (VNum (Fin (of_nat (length s)))))"
  using assms
  by (simp add: safePropertyAccess_def js_String_def runtimeBlockedProps_def get_property_def
      array_index_def is_digit_def code_unit_def Let_def)

lemma second_length_is_the_first:
  assumes "map_of (propertyCache st) (''string:length'') = None"
  shows "safePropertyAccess h (VStr t) (VStr ''length'')
           (snd (safePropertyAccess h (VStr s) (VStr ''length'') st))
         = (Inr (VNum (Fin (of_nat (length s)))),
            snd (safePropertyAccess h (VStr s) (VStr ''length'') st))"
  by (simp add: length_is_cached [OF assms] property_cache_hit [where k = "''length''"]
      js_String_def map_of_setCached)

text \<open>
  C9. The result of a member access on a receiver that is not an object is cached under
  the receiver's \<open>typeof\<close> and the property name alone, and a later access with the same
  two reads the cache first (\<open>property_cache_hit\<close>, \<open>second_length_is_the_first\<close>). In
  one evaluation of \<open>a.length + b.length\<close> with \<open>a = "hello"\<close> and \<open>b = "hi"\<close> the second
  access returns the 5 cached by the first, and the sum is 10; evaluated alone, the
  lengths are 5 and 2.
\<close>

theorem property_cache_ignores_receiver:
  "fst (execute (kangaroo_env plain_host reg) length_sum
          [(''a'', VStr ''hello''), (''b'', VStr ''hi'')] new_Engine) = Success (VNum (Fin 10))
   \<and> fst (execute (kangaroo_env plain_host reg)
            (MemberExpression (Identifier ''a'') (Identifier ''length'') False)
            [(''a'', VStr ''hello''), (''b'', VStr ''hi'')] new_Engine) = Success (VNum (Fin 5))
   \<and> fst (execute (kangaroo_env plain_host reg)
            (MemberExpression (Identifier ''b'') (Identifier ''length'') False)
            [(''a'', VStr ''hello''), (''b'', VStr ''hi'')] new_Engine) = Success (VNum (Fin 2))"
  by (simp add: length_sum_def exec_defs plain_defs)

section \<open>Properties of the orchestrator\<close>

lemma template_cache_hit:
  assumes "enableCaching opts"
    and "map_of (templateCache k) (getTemplateCacheKey template ctx) = Some cached"
  shows "evaluateTemplate env opts types template ctx k = (cached, k)"
  using assms by (simp add: evaluateTemplate_def)

lemma key_ignores_values:
  "sort_strings (map fst ctx1) = sort_strings (map fst ctx2) \<Longrightarrow>
   getTemplateCacheKey template ctx1 = getTemplateCacheKey template ctx2"
  by (simp add: getTemplateCacheKey_def)

lemma map_of_setTemplateCached:
  "map_of (templateCache (setTemplateCached k key v)) key = Some v"
  by (simp add: setTemplateCached_def Let_def update_conv' split: list.splits)

lemma success_is_cached:
  assumes "enableCaching opts"
    and "evaluateTemplate env opts types template ctx k = (TemplateSuccess r ps, k1)"
  shows "map_of (templateCache k1) (getTemplateCacheKey template ctx) = Some (TemplateSuccess r ps)"
proof (cases "map_of (templateCache k) (getTemplateCacheKey template ctx)")
  case (Some cached)
  with assms show ?thesis by (simp add: evaluateTemplate_def)
next
  case None
  with assms show ?thesis
    by (auto simp: evaluateTemplate_def map_of_setTemplateCached
        split: prod.splits sum.splits error.splits)
qed

text \<open>
  C7. A hit of the template cache depends on the template text and on the sorted names
  of the context's keys alone, never on the values: after a call of \<open>evaluate\<close> on a
  template has succeeded with caching enabled, a call on the same instance with the same
  text and a context with the same keys returns the result of the first call, whatever
  the values of the second context are. So it is with \<open>{{x}}\<close>, first for \<open>x = 1\<close> and
  then for \<open>x = 2\<close>: the second call answers 1, where a new instance answers 2.
\<close>

theorem template_cache_ignores_values:
  assumes "enableCaching opts"
    and "sort_strings (map fst ctx1) = sort_strings (map fst ctx2)"
    and "evaluate env opts types expression ctx1 k = (Template (TemplateSuccess r ps), k1)"
  shows "evaluate env opts types expression ctx2 k1 = (Template (TemplateSuccess r ps), k1)"
proof -
  from assms(3) have t: "expression \<noteq> []" "trim expression \<noteq> []" "hasTemplateExpressions (trim expression)"
    by (auto simp: evaluate_def split: if_splits prod.splits)
  with assms(3) have "evaluateTemplate env opts types (trim expression) ctx1 k = (TemplateSuccess r ps, k1)"
    by (auto simp: evaluate_def split: prod.splits)
  from success_is_cached [OF assms(1) this]
  have "map_of (templateCache k1) (getTemplateCacheKey (trim expression) ctx2) = Some (TemplateSuccess r ps)"
    by (simp add: key_ignores_values [OF assms(2)])
  from template_cache_hit [OF assms(1) this] t show ?thesis
    by (simp add: evaluate_def)
qed


lemma num_strings:
  "plain_num_to_string (Fin 1) = ''1''" "plain_num_to_string (Fin 2) = ''2''"
  by (simp_all add: show_int_def safe_integer_def show_small digit_char_def)

lemmas template_defs = evaluate_def evaluateTemplate_def replaceTemplateExpressions_def
  extractTemplateExpressions_def hole_at_def is_brace_def trim_def is_space_def template_replacer_def
  evaluateExpression_def parse_def calc_Identifier default_options_def serializeValue_def
  detectType_def getTemplateCacheKey_def sort_strings_def setTemplateCached_def
  maxTemplateCacheSize_def new_Kangaroo_def

lemma first_call:
  "fst (evaluate (kangaroo_env plain_host (\<lambda>n. None)) default_options [] ''{{x}}''
          [(''x'', VNum (Fin 1))] new_Kangaroo)
   = Template (TemplateSuccess ''1''
       [\<lparr> pe_original = ''x'', pe_evaluated = VNum (Fin 1), pe_startIndex = 0, pe_endIndex = 5 \<rparr>])"
  by (simp add: template_defs exec_defs plain_defs cb_defs validateNode_cases validateIdentifier_def
      blockedIdentifiers_def applyCustomRules_def show_int_def safe_integer_def show_small digit_char_def)


lemma fresh_second_call:
  "fst (evaluate (kangaroo_env plain_host (\<lambda>n. None)) default_options [] ''{{x}}''
          [(''x'', VNum (Fin 2))] new_Kangaroo)
   = Template (TemplateSuccess ''2''
       [\<lparr> pe_original = ''x'', pe_evaluated = VNum (Fin 2), pe_startIndex = 0, pe_endIndex = 5 \<rparr>])"
  by (simp add: template_defs exec_defs plain_defs cb_defs validateNode_cases validateIdentifier_def
      blockedIdentifiers_def applyCustomRules_def show_int_def safe_integer_def show_small digit_char_def)

theorem template_cache_ignores_values_witness:
  "enableCaching default_options
   \<and> sort_strings (map fst [(''x'', VNum (Fin 1))]) = sort_strings (map fst [(''x'', VNum (Fin 2))])
   \<and> fst (evaluate (kangaroo_env plain_host (\<lambda>n. None)) default_options [] ''{{x}}''
            [(''x'', VNum (Fin 1))] new_Kangaroo)
       = Template (TemplateSuccess ''1''
           [\<lparr> pe_original = ''x'', pe_evaluated = VNum (Fin 1), pe_startIndex = 0, pe_endIndex = 5 \<rparr>])
   \<and> fst (evaluate (kangaroo_env plain_host (\<lambda>n. None)) default_options [] ''{{x}}''
            [(''x'', VNum (Fin 2))]
            (snd (evaluate (kangaroo_env plain_host (\<lambda>n. None)) default_options [] ''{{x}}''
                    [(''x'', VNum (Fin 1))] new_Kangaroo)))
       = Template (TemplateSuccess ''1''
           [\<lparr> pe_original = ''x'', pe_evaluated = VNum (Fin 1), pe_startIndex = 0, pe_endIndex = 5 \<rparr>])
   \<and> fst (evaluate (kangaroo_env plain_host (\<lambda>n. None)) default_options [] ''{{x}}''
            [(''x'', VNum (Fin 2))] new_Kangaroo)
       = Template (TemplateSuccess ''2''
           [\<lparr> pe_original = ''x'', pe_evaluated = VNum (Fin 2), pe_startIndex = 0, pe_endIndex = 5 \<rparr>])"
proof -
  let ?env = "kangaroo_env plain_host (\<lambda>n. None)"
  let ?one = "[(''x'', VNum (Fin 1))]"
  let ?two = "[(''x'', VNum (Fin 2))]"
  let ?r = "[\<lparr> pe_original = ''x'', pe_evaluated = VNum (Fin 1), pe_startIndex = 0, pe_endIndex = 5 \<rparr>]"
  have a: "enableCaching default_options"
    by (simp add: default_options_def)
  have b: "sort_strings (map fst ?one) = sort_strings (map fst ?two)"
    by simp
  have c: "evaluate ?env default_options [] ''{{x}}'' ?one new_Kangaroo
             = (Template (TemplateSuccess ''1'' ?r),
                snd (evaluate ?env default_options [] ''{{x}}'' ?one new_Kangaroo))"
    using first_call by (simp add: prod_eq_iff)
  from template_cache_ignores_values [OF a b c] a b first_call fresh_second_call
  show ?thesis by simp
qed

lemma replace_loop_append:
  "replace_loop f before acc st = (Inr acc', st') \<Longrightarrow>
   replace_loop f (before @ rest) acc st = replace_loop f rest acc' st'"
  by (induction before arbitrary: acc st) (auto split: prod.splits sum.splits)

lemma replace_loop_throws:
  assumes "replace_loop f before acc st = (Inr acc', st')"
    and "f (tm_expression m) m st' = (Inl e, st'')"
  shows "replace_loop f (before @ m # after) acc st = (Inl e, st'')"
  using assms by (simp add: replace_loop_append)

lemma replacer_fails:
  "evaluateExpression env opts expression ctx eng = (Failure msg et, eng') \<Longrightarrow>
   \<exists>ps'. template_replacer env opts types ctx expression m (eng, ps) = (Inl (Error msg), (eng', ps'))"
  by (simp add: template_replacer_def)

text \<open>
  C8. A template is evaluated (no cached result answers for it); its holes are taken
  from the last to the first. When the holes before some hole \<open>m\<close> in that order have
  been replaced and the evaluation of the expression of \<open>m\<close> fails, the call returns the
  one error result with the message of that failure, and no text: neither the partly
  replaced template nor a record of the holes. Conversely a call that succeeds has met
  no failing hole (\<open>successful_template_had_no_failure\<close>).
\<close>

theorem failed_hole_aborts_template:
  assumes "enableCaching opts \<longrightarrow> map_of (templateCache k) (getTemplateCacheKey template ctx) = None"
    and "rev (extractTemplateExpressions template) = before @ m # after"
    and "replace_loop (template_replacer env opts types ctx) before template (engine k, [])
           = (Inr partial, (eng, ps))"
    and "evaluateExpression env opts (tm_expression m) ctx eng = (Failure msg et, eng')"
  shows "evaluateTemplate env opts types template ctx k = (TemplateFailure msg, k\<lparr> engine := eng' \<rparr>)"
proof -
  from replacer_fails [OF assms(4)] obtain ps'
    where "template_replacer env opts types ctx (tm_expression m) m (eng, ps) = (Inl (Error msg), (eng', ps'))"
    by blast
  from replace_loop_throws [OF assms(3) this]
  have "replaceTemplateExpressions template (template_replacer env opts types ctx) (engine k, [])
          = (Inl (Error msg), (eng', ps'))"
    by (simp add: replaceTemplateExpressions_def assms(2))
  with assms(1) show ?thesis
    by (cases "enableCaching opts") (simp_all add: evaluateTemplate_def)
qed

lemma successful_template_had_no_failure:
  assumes "enableCaching opts \<longrightarrow> map_of (templateCache k) (getTemplateCacheKey template ctx) = None"
    and "evaluateTemplate env opts types template ctx k = (TemplateSuccess r ps, k')"
    and "rev (extractTemplateExpressions template) = before @ m # after"
    and "replace_loop (template_replacer env opts types ctx) before template (engine k, [])
           = (Inr partial, (eng, ps0))"
  shows "\<exists>v eng'. evaluateExpression env opts (tm_expression m) ctx eng = (Success v, eng')"
proof (cases "evaluateExpression env opts (tm_expression m) ctx eng")
  case (Pair res eng')
  show ?thesis
  proof (cases res)
    case (Success v)
    with Pair show ?thesis by simp
  next
    case (Failure msg et)
    with Pair have "evaluateExpression env opts (tm_expression m) ctx eng = (Failure msg et, eng')"
      by simp
    from replacer_fails [OF this] obtain ps'
      where "template_replacer env opts types ctx (tm_expression m) m (eng, ps0) = (Inl (Error msg), (eng', ps'))"
      by blast
    from replace_loop_throws [OF assms(4) this]
    have "replaceTemplateExpressions template (template_replacer env opts types ctx) (engine k, [])
            = (Inl (Error msg), (eng', ps'))"
      by (simp add: replaceTemplateExpressions_def assms(3))
    with assms(1,2) show ?thesis
      by (cases "enableCaching opts") (simp_all add: evaluateTemplate_def)
  qed
qed

lemma extract_example:
  "extractTemplateExpressions ''{{import}} and {{x}}''
     = [\<lparr> fullMatch = ''{{import}}'', tm_expression = ''import'', startIndex = 0, endIndex = 10 \<rparr>,
        \<lparr> fullMatch = ''{{x}}'', tm_expression = ''x'', startIndex = 15, endIndex = 20 \<rparr>]"
  by (simp add: extractTemplateExpressions_def hole_at_def is_brace_def trim_def is_space_def code_unit_def)


lemma evaluate_x:
  "fst (evaluateExpression (kangaroo_env plain_host (\<lambda>n. None)) default_options ''x''
          [(''x'', VNum (Fin 1))] new_Engine) = Success (VNum (Fin 1))"
  by (simp add: template_defs exec_defs plain_defs cb_defs validateNode_cases validateIdentifier_def
      blockedIdentifiers_def applyCustomRules_def)

lemma evaluate_import:
  "evaluateExpression (kangaroo_env plain_host reg) opts ''import'' ctx eng
     = (Failure ''Invalid syntax: import'' ErrSyntax, eng)"
  by (simp add: evaluateExpression_def parse_def trim_def is_space_def kangaroo_env_def plain_defs)

theorem failed_hole_aborts_template_witness:
  "map_of (templateCache new_Kangaroo)
     (getTemplateCacheKey ''{{import}} and {{x}}'' [(''x'', VNum (Fin 1))]) = None
   \<and> rev (extractTemplateExpressions ''{{import}} and {{x}}'')
       = [\<lparr> fullMatch = ''{{x}}'', tm_expression = ''x'', startIndex = 15, endIndex = 20 \<rparr>]
         @ \<lparr> fullMatch = ''{{import}}'', tm_expression = ''import'', startIndex = 0, endIndex = 10 \<rparr> # []
   \<and> fst (replace_loop
            (template_replacer (kangaroo_env plain_host (\<lambda>n. None)) default_options [] [(''x'', VNum (Fin 1))])
            [\<lparr> fullMatch = ''{{x}}'', tm_expression = ''x'', startIndex = 15, endIndex = 20 \<rparr>]
            ''{{import}} and {{x}}'' (engine new_Kangaroo, []))
       = Inr ''{{import}} and 1''
   \<and> fst (evaluateTemplate (kangaroo_env plain_host (\<lambda>n. None)) default_options []
            ''{{import}} and {{x}}'' [(''x'', VNum (Fin 1))] new_Kangaroo)
       = TemplateFailure ''Invalid syntax: import''"
proof -
  let ?env = "kangaroo_env plain_host (\<lambda>n. None)"
  let ?ctx = "[(''x'', VNum (Fin 1))]"
  let ?T = "''{{import}} and {{x}}''"
  let ?xh = "\<lparr> fullMatch = ''{{x}}'', tm_expression = ''x'', startIndex = 15, endIndex = 20 \<rparr>"
  let ?ih = "\<lparr> fullMatch = ''{{import}}'', tm_expression = ''import'', startIndex = 0, endIndex = 10 \<rparr>"
  let ?R = "template_replacer ?env default_options [] ?ctx"
  define E where "E = snd (evaluateExpression ?env default_options ''x'' ?ctx new_Engine)"
  let ?ps = "[\<lparr> pe_original = ''x'', pe_evaluated = VNum (Fin 1), pe_startIndex = 15, pe_endIndex = 20 \<rparr>]"
  have a: "map_of (templateCache new_Kangaroo) (getTemplateCacheKey ?T ?ctx) = None"
    by (simp add: new_Kangaroo_def)
  have b: "rev (extractTemplateExpressions ?T) = [?xh] @ ?ih # []"
    by (simp add: extract_example)
  have x: "evaluateExpression ?env default_options ''x'' ?ctx new_Engine = (Success (VNum (Fin 1)), E)"
    using evaluate_x by (simp add: prod_eq_iff E_def)
  have c: "replace_loop ?R [?xh] ?T (engine new_Kangaroo, []) = (Inr ''{{import}} and 1'', (E, ?ps))"
    apply (simp add: template_replacer_def x new_Kangaroo_def)
    apply (simp add: serializeValue_def detectType_def js_String_def plain_host_def kangaroo_env_def
        show_int_def safe_integer_def show_small digit_char_def)
    done
  have d: "evaluateExpression ?env default_options (tm_expression ?ih) ?ctx E
             = (Failure ''Invalid syntax: import'' ErrSyntax, E)"
    by (simp add: evaluate_import)
  from failed_hole_aborts_template [of default_options new_Kangaroo ?T ?ctx "[?xh]" ?ih "[]" ?env "[]", OF _ b c d]
       a b c
  show ?thesis by simp
qed

section \<open>Acceptance by the security validator\<close>

lemma calc_Member:
  "calculateComplexity (MemberExpression ob p c) = 1 + calculateComplexity ob + calculateComplexity p"
  "calculateDepth (MemberExpression ob p c) = max (Suc (calculateDepth ob)) (Suc (calculateDepth p))"
  by (subst calculateComplexity.simps, simp add: complexity_weight_def)
     (subst calculateDepth.simps, simp)

lemma show_11:
  "show_nat (Suc (Suc (Suc (Suc (Suc (Suc (Suc (Suc (Suc (Suc (Suc 0))))))))))) = ''11''"
proof -
  have "show_nat 11 = ''11''"
    by (subst show_nat.simps) (simp add: show_small digit_char_def)
  then show ?thesis by (simp add: eval_nat_numeral)
qed

lemma deep_chain_walk:
  "validateNode reg [] ctx deep_chain
     = [violation depth_limit ''Property chain too deep (11 levels)'' SevWarning]"
  by (simp add: deep_chain_def validateNode_cases validateMemberExpression_def validateIdentifier_def
      blockedIdentifiers_def blockedProperties_def applyCustomRules_def show_11)

lemma deep_chain_parse:
  "parse plain_host ''a.b.c.d.e.f.g.h.i.j.k.l''
     = Some \<lparr> ast = deep_chain, complexity = 17, depth = 11 \<rparr>"
  by (simp add: parse_def trim_def is_space_def plain_defs deep_chain_def calc_Member calc_Identifier)

lemma key_of_member:
  "take 100 (plain_node_json (MemberExpression ob (Identifier p) False))
     = take 100 (node_header ''MemberExpression'' 1 (1 + (text_length ob + 1 + length p)))"
  by (simp add: plain_node_json_def key_of_header del: take_append)

lemma deep_chain_key:
  "validator_getCacheKey plain_host deep_chain (Some [])
     = Inr (''MemberExpression:'' @ take 100 (node_header ''MemberExpression'' 1 24) @ ''|{}'')"
proof -
  obtain ob where ob: "deep_chain = MemberExpression ob (Identifier ''l'') False" "text_length ob = 21"
    by (simp add: deep_chain_def)
  have "take 100 (plain_node_json deep_chain) = take 100 (node_header ''MemberExpression'' 1 24)"
    unfolding ob(1) key_of_member by (simp add: ob(2))
  then show ?thesis
    by (simp add: validator_getCacheKey_def plain_host_def plain_JSON_stringify_def ob(1))
qed

text \<open>
  C1, as stated: a tree whose walk produces warnings only is accepted. It is not. The
  walk of \<open>a.b.c.d.e.f.g.h.i.j.k.l\<close> produces one violation, the warning for a member
  chain longer than 10; \<open>validate\<close> answers \<open>isValid = false\<close>, and in strict mode (with
  a depth cap of 20, so that the expression reaches the validator) \<open>evaluate\<close> returns
  a security error.
\<close>

theorem warning_blocks_acceptance:
  "validateNode (\<lambda>n. None) [] None deep_chain
     = [violation depth_limit ''Property chain too deep (11 levels)'' SevWarning]
   \<and> map_sum id fst (validate plain_host (\<lambda>n. None) new_SecurityValidator deep_chain None)
       = Inr \<lparr> isValid = False,
               violations = [violation depth_limit ''Property chain too deep (11 levels)'' SevWarning],
               riskLevel = Some RiskLow \<rparr>
   \<and> fst (evaluate (kangaroo_env plain_host (\<lambda>n. None)) (default_options\<lparr> maxDepth := 20 \<rparr>) []
            ''a.b.c.d.e.f.g.h.i.j.k.l'' [] new_Kangaroo)
       = Direct (Failure ''Security violation: Property chain too deep (11 levels)'' ErrSecurity)"
  apply (intro conjI)
    apply (rule deep_chain_walk)
   apply (simp add: validate_def validator_getCacheKey_def new_SecurityValidator_def deep_chain_walk
      assessRiskLevel_def violation_def Let_def)
  apply (simp add: evaluate_def trim_def is_space_def code_unit_def hole_at_def evaluateExpression_def
      kangaroo_env_def deep_chain_parse default_options_def)
  apply (simp add: validate_def validator_getCacheKey_def new_Kangaroo_def new_Engine_def
      new_SecurityValidator_def deep_chain_walk violation_def plain_host_def plain_JSON_stringify_def
      Let_def)
  done


lemma show_10_11: "show_nat 10 = ''10''" "show_nat 11 = ''11''"
  by (subst show_nat.simps, simp add: show_small digit_char_def)+

text \<open>With the default depth cap of 10 the same expression does not reach the
  validator: it is refused for its depth, with an error of the complexity class.\<close>

lemma deep_chain_at_default_options:
  "fst (evaluate (kangaroo_env plain_host (\<lambda>n. None)) default_options []
          ''a.b.c.d.e.f.g.h.i.j.k.l'' [] new_Kangaroo)
     = Direct (Failure ''Expression too deep (11 > 10)'' ErrComplexity)"
  apply (simp add: evaluate_def trim_def is_space_def code_unit_def hole_at_def evaluateExpression_def
      kangaroo_env_def deep_chain_parse default_options_def)
  apply (simp add: plain_host_def show_int_def safe_integer_def show_10_11)
  done

text \<open>
  C1, amended: any violation blocks acceptance, whatever its severity. In strict mode,
  let the expression parse with a complexity and a depth within the caps of the
  options, let the host print the context, so that the tree has a key, and let the
  validation cache hold no entry under that key. Then \<open>validate\<close> answers with the
  violations of the walk and with \<open>isValid = true\<close> if and only if there is none, and
  \<open>evaluateExpression\<close> executes the tree when there is none and returns a security
  error with the messages of all violations, warnings included, otherwise. Beyond a
  cap \<open>evaluateExpression\<close> returns an error of the complexity class before it asks the
  validator (\<open>deep_chain_at_default_options\<close>), and on a hit of the cache the validator
  returns the cached result in place of the walk's (\<open>validate_on_hit\<close>).
\<close>

theorem any_violation_blocks:
  assumes "strictMode opts"
    and "parse (env_host env) expression = Some parsed"
    and "\<not> complexity parsed > maxComplexity opts"
    and "\<not> of_nat (depth parsed) > maxDepth opts"
    and "validator_getCacheKey (env_host env) (ast parsed) (Some ctx) = Inr key"
    and "map_of (validationCache (securityValidator st)) key = None"
    and "vs = validateNode (env_registry env) (customRules (securityValidator st)) (Some ctx) (ast parsed)"
  shows "\<exists>res sv'.
           validate (env_host env) (env_registry env) (securityValidator st) (ast parsed) (Some ctx)
             = Inr (res, sv')
         \<and> violations res = vs
         \<and> isValid res = (vs = [])
         \<and> evaluateExpression env opts expression ctx st
             = (if vs = [] then execute env (ast parsed) ctx (st\<lparr> securityValidator := sv' \<rparr>)
                else (Failure (''Security violation: '' @ join_with ''; '' (map v_message vs)) ErrSecurity,
                      st\<lparr> securityValidator := sv' \<rparr>))"
  using assms(1-4) validate_on_miss [OF assms(5,6), of "env_registry env"]
  by (simp add: evaluateExpression_def assms(7))

theorem any_violation_blocks_witness:
  "strictMode (default_options\<lparr> maxDepth := 20 \<rparr>)
   \<and> parse plain_host ''a.b.c.d.e.f.g.h.i.j.k.l'' = Some \<lparr> ast = deep_chain, complexity = 17, depth = 11 \<rparr>
   \<and> validationCache (securityValidator new_Engine) = []
   \<and> validateNode (\<lambda>n. None) [] (Some []) deep_chain
       = [violation depth_limit ''Property chain too deep (11 levels)'' SevWarning]
   \<and> (\<exists>res sv'.
         validate plain_host (\<lambda>n. None) (securityValidator new_Engine) deep_chain (Some []) = Inr (res, sv')
       \<and> isValid res = False
       \<and> evaluateExpression (kangaroo_env plain_host (\<lambda>n. None)) (default_options\<lparr> maxDepth := 20 \<rparr>)
             ''a.b.c.d.e.f.g.h.i.j.k.l'' [] new_Engine
           = (Failure ''Security violation: Property chain too deep (11 levels)'' ErrSecurity,
              new_Engine\<lparr> securityValidator := sv' \<rparr>))"
proof -
  let ?env = "kangaroo_env plain_host (\<lambda>n. None)"
  let ?opts = "default_options\<lparr> maxDepth := 20 \<rparr>"
  let ?parsed = "\<lparr> ast = deep_chain, complexity = 17, depth = 11 \<rparr>"
  let ?key = "''MemberExpression:'' @ take 100 (node_header ''MemberExpression'' 1 24) @ ''|{}''"
  let ?vs = "[violation depth_limit ''Property chain too deep (11 levels)'' SevWarning]"
  have a: "strictMode ?opts" by (simp add: default_options_def)
  have b: "parse (env_host ?env) ''a.b.c.d.e.f.g.h.i.j.k.l'' = Some ?parsed"
    by (simp add: kangaroo_env_def deep_chain_parse)
  have c: "\<not> complexity ?parsed > maxComplexity ?opts" by (simp add: default_options_def)
  have d: "\<not> of_nat (depth ?parsed) > maxDepth ?opts" by (simp add: default_options_def)
  have e: "validator_getCacheKey (env_host ?env) (ast ?parsed) (Some []) = Inr ?key"
    by (simp add: kangaroo_env_def deep_chain_key)
  have empty: "validationCache (securityValidator new_Engine) = []"
    by (simp add: new_Engine_def new_SecurityValidator_def)
  then have f: "map_of (validationCache (securityValidator new_Engine)) ?key = None"
    by simp
  have g: "?vs = validateNode (env_registry ?env) (customRules (securityValidator new_Engine)) (Some []) (ast ?parsed)"
    by (simp add: kangaroo_env_def new_Engine_def new_SecurityValidator_def deep_chain_walk)
  from any_violation_blocks [OF a b c d e f g] a empty g deep_chain_parse
  show ?thesis
    by (simp add: kangaroo_env_def new_Engine_def new_SecurityValidator_def violation_def) blast
qed

end
